theory Spec2Isabelle
  imports Main
begin

section \<open>The postMessage transport of the Rocky.js companion (\<open>_pebble.js\<close>)\<close>

text \<open>
  The development embeds the JavaScript module that layers \<open>Pebble.postMessage\<close> on top
  of the native app-message channel: the listener registry, the \<open>Sender\<close>, the
  \<open>ChunkReceiver\<close> and the session control state machine.

  Conventions of the embedding.
  \<^item> JavaScript numbers that the module handles are integers; they are \<open>int\<close>, and the
    32-bit operators \<open>&\<close>, \<open>|\<close>, \<open>~\<close>, \<open><<\<close>, \<open>>>\<close> wrap their operands to
    signed 32 bits first.
  \<^item> A JavaScript string that carries data (JSON text, UTF-8 byte strings) is the list of
    its code units. Fixed names (event names, dictionary keys, messages) are \<open>string\<close>s.
  \<^item> A key/value dictionary is an association list; \<open>k in d\<close> is \<open>js_in k d\<close>.
  \<^item> A thrown exception is the left summand of the result and carries the state as the
    mutations before the \<open>throw\<close> left it.
  \<^item> Calls into the environment (\<open>__Pebble.sendAppMessage\<close>, \<open>setTimeout\<close>,
    \<open>console.error\<close>, listener invocations) are appended to the trace \<open>out\<close>.
    The callbacks handed to the environment come back as events (see \<open>event\<close>).
  \<^item> \<open>JSON.stringify\<close>, \<open>JSON.parse\<close> and the \<open>utf8\<close> package are not part of the
    module; they are the fields of the parameter \<open>E\<close>.
  \<^item> Listener bodies are opaque: the invocation is recorded, and a listener that calls back
    into the module while it runs is not modelled.
\<close>

subsection \<open>JavaScript values and operators\<close>

type_synonym js_string = "nat list"

datatype js_value =
    JUndefined
  | JNull
  | JBool bool
  | JNum int
  | JStr js_string
  | JArr "js_value list"
  | JObj "(js_string \<times> js_value) list"

datatype stringify_result = StringifyThrows | StringifyUndefined | StringifyString js_string

record js_env =
  JSON_stringify :: "js_value \<Rightarrow> stringify_result"
  JSON_parse :: "js_string \<Rightarrow> js_value option"
  utf8_encode :: "js_string \<Rightarrow> js_string option"
  utf8_decode :: "js_string \<Rightarrow> js_string option"

text \<open>\<open>ToInt32\<close> and the 32-bit operators on integers.\<close>

definition to_int32 :: "int \<Rightarrow> int" where
  "to_int32 x = (x + 2147483648) mod 4294967296 - 2147483648"

definition js_and :: "int \<Rightarrow> int \<Rightarrow> int" where
  "js_and a b = and (to_int32 a) (to_int32 b)"

definition js_or :: "int \<Rightarrow> int \<Rightarrow> int" where
  "js_or a b = or (to_int32 a) (to_int32 b)"

definition js_not :: "int \<Rightarrow> int" where
  "js_not a = - to_int32 a - 1"

definition js_shl :: "int \<Rightarrow> nat \<Rightarrow> int" where
  "js_shl a k = to_int32 (to_int32 a * 2 ^ k)"

definition js_sar :: "int \<Rightarrow> nat \<Rightarrow> int" where
  "js_sar a k = to_int32 a div 2 ^ k"

text \<open>\<open>xs[i]\<close>: \<open>undefined\<close> out of range. In a bitwise operator \<open>undefined\<close> is 0.\<close>

definition js_index :: "'a list \<Rightarrow> nat \<Rightarrow> 'a option" where
  "js_index xs i = (if i < length xs then Some (xs ! i) else None)"

definition bits_of :: "int option \<Rightarrow> int" where
  "bits_of v = (case v of None \<Rightarrow> 0 | Some x \<Rightarrow> x)"

text \<open>\<open>Array.prototype.slice(start, end)\<close>, with the relative indices of the language.\<close>

definition js_rel_index :: "nat \<Rightarrow> int \<Rightarrow> nat" where
  "js_rel_index len k = (if k < 0 then nat (max (int len + k) 0) else min (nat k) len)"

definition js_slice :: "'a list \<Rightarrow> int \<Rightarrow> int \<Rightarrow> 'a list" where
  "js_slice xs start stop =
     (let lo = js_rel_index (length xs) start;
          hi = js_rel_index (length xs) stop
      in take (hi - lo) (drop lo xs))"

text \<open>\<open>String.fromCharCode\<close> keeps the low 16 bits.\<close>

definition fromCharCode :: "int \<Rightarrow> nat" where
  "fromCharCode c = nat (c mod 65536)"

subsection \<open>Data\<close>

datatype kv_value = Num int | Arr "int list"

type_synonym dict = "(string \<times> kv_value) list"

definition js_in :: "string \<Rightarrow> dict \<Rightarrow> bool" where
  "js_in k d \<longleftrightarrow> map_of d k \<noteq> None"

datatype handler = HUndefined | HValue nat | HFunction nat

record handlers_list =
  pos :: nat
  handlers :: "handler list"

datatype control_state =
    ControlStateDisconnected
  | ControlStateAwaitingResetCompleteRemoteInitiated
  | ControlStateAwaitingResetCompleteLocalInitiated
  | ControlStateSessionOpen

datatype message_type = Control | Object

record data_object =
  obj :: js_value
  data :: "int list"
  json :: js_string

record protocol =
  version :: int
  tx_chunk_size :: int
  rx_chunk_size :: int

text \<open>
  The object \<open>_unpackChunk\<close> builds: \<open>is_first\<close> decides which of \<open>total_size_bytes\<close> and
  \<open>offset_bytes\<close> it has.
\<close>

datatype chunk = FirstChunk int "int list" | NextChunk int "int list"

fun is_first :: "chunk \<Rightarrow> bool" where
  "is_first (FirstChunk n d) = True"
| "is_first (NextChunk n d) = False"

fun chunk_data :: "chunk \<Rightarrow> int list" where
  "chunk_data (FirstChunk n d) = d"
| "chunk_data (NextChunk n d) = d"

datatype js_error =
    Error string
  | TypeError string
  | SyntaxError
  | StringifyError
  | LibraryError

datatype log_entry =
    LogPostMessageFailed string
  | LogChunkFailed bool string
  | LogOutOfSyncFirst bool bool
  | LogOutOfSyncOffset int int
  | LogOutOfSyncSize int int int
  | LogParseFailed js_string
  | LogNotZeroTerminated
  | LogChunkTooShort

datatype effect =
    SendAppMessage "dict option" message_type
  | SetTimeout message_type int
  | CallHandlers string "js_value option" "handler list"
  | ConsoleError log_entry
  | NativeAddEventListener string handler
  | NativeRemoveEventListener string handler
  | Uncaught js_error

record pm_state =
  EVENTS :: "string \<rightharpoonup> handlers_list"
  controlQueue :: "dict list"
  objectQueue :: "data_object list"
  currentMessageType :: "message_type option"
  failureCount :: int
  offsetBytes :: int
  chunkPayloadSize :: int
  utf8_json_string :: js_string
  total_size_bytes :: int
  received_size_bytes :: int
  control_state :: control_state
  control_protocol :: protocol
  out :: "effect list"

type_synonym 'a result = "(js_error \<times> pm_state) + 'a"

definition emit :: "effect \<Rightarrow> pm_state \<Rightarrow> pm_state" where
  "emit x s = s\<lparr>out := out s @ [x]\<rparr>"

definition zero_protocol :: protocol where
  "zero_protocol = \<lparr>version = 0, tx_chunk_size = 0, rx_chunk_size = 0\<rparr>"

definition initial_state :: pm_state where
  "initial_state =
     \<lparr>EVENTS = Map.empty, controlQueue = [], objectQueue = [],
      currentMessageType = None, failureCount = 0, offsetBytes = 0, chunkPayloadSize = 0,
      utf8_json_string = [], total_size_bytes = 0, received_size_bytes = 0,
      control_state = ControlStateDisconnected, control_protocol = zero_protocol,
      out = []\<rparr>"

subsection \<open>Listener registry\<close>

text \<open>
  \<open>_callHandler\<close> sets \<open>msg.data\<close> only when the data is not \<open>undefined\<close>.
  \<open>_callHandlersForEvent\<close> returns at once for a name without a list; otherwise a new
  iterator visits the handlers in order, leaving the cursor behind the last one. The record
  of the dispatch lists the handlers invoked (none when the name has no list).
\<close>

definition msg_data :: "js_value \<Rightarrow> js_value option" where
  "msg_data d = (if d = JUndefined then None else Some d)"

definition callHandler :: "handler \<Rightarrow> string \<Rightarrow> js_value \<Rightarrow> pm_state \<Rightarrow> pm_state" where
  "callHandler h event_name callback_data s =
     emit (CallHandlers event_name (msg_data callback_data) [h]) s"

definition callHandlersForEvent :: "string \<Rightarrow> js_value \<Rightarrow> pm_state \<Rightarrow> pm_state" where
  "callHandlersForEvent event_name callback_data s =
     (case EVENTS s event_name of
        None \<Rightarrow> emit (CallHandlers event_name (msg_data callback_data) []) s
      | Some hl \<Rightarrow>
          emit (CallHandlers event_name (msg_data callback_data) (handlers hl))
            (s\<lparr>EVENTS := (EVENTS s)(event_name \<mapsto> hl\<lparr>pos := length (handlers hl)\<rparr>)\<rparr>))"

definition isPostMessageEvent :: "string \<Rightarrow> bool" where
  "isPostMessageEvent event_name \<longleftrightarrow>
     event_name \<in> set [''message'', ''postmessageerror'',
                        ''postmessageconnected'', ''postmessagedisconnected'']"

subsection \<open>ChunkReceiver\<close>

definition append_codes :: "js_string \<Rightarrow> int list \<Rightarrow> js_string" where
  "append_codes str ds = str @ map fromCharCode ds"

definition handleChunkReceived ::
  "js_env \<Rightarrow> chunk option \<Rightarrow> pm_state \<Rightarrow> (bool \<times> pm_state) result" where
  "handleChunkReceived E chunk_opt s =
     (case chunk_opt of
        None \<Rightarrow> Inr (False, s)
      | Some chunk \<Rightarrow>
          let isExpectingFirst = (utf8_json_string s = []) in
          if is_first chunk \<noteq> isExpectingFirst
          then Inr (False, emit (ConsoleError (LogOutOfSyncFirst (is_first chunk) isExpectingFirst)) s)
          else
            let len = int (length (chunk_data chunk));
                checked =
                  (case chunk of
                     FirstChunk n d \<Rightarrow>
                       Inr (s\<lparr>total_size_bytes := n, received_size_bytes := 0\<rparr>)
                   | NextChunk n d \<Rightarrow>
                       if received_size_bytes s \<noteq> n
                       then Inl (emit (ConsoleError
                                   (LogOutOfSyncOffset (received_size_bytes s) n)) s)
                       else if received_size_bytes s + len > total_size_bytes s
                       then Inl (emit (ConsoleError
                                   (LogOutOfSyncSize (received_size_bytes s) len
                                      (total_size_bytes s))) s)
                       else Inr s)
            in (case checked of
                 Inl s' \<Rightarrow> Inr (False, s')
               | Inr s1 \<Rightarrow>
                   let s2 = s1\<lparr>received_size_bytes := received_size_bytes s1 + len\<rparr>;
                       isLastChunk = (received_size_bytes s2 = total_size_bytes s2);
                       isLastChunkZeroTerminated =
                         (isLastChunk \<and> chunk_data chunk \<noteq> [] \<and> last (chunk_data chunk) = 0);
                       end_idx = (if isLastChunk then len - 1 else len);
                       s3 = s2\<lparr>utf8_json_string :=
                               append_codes (utf8_json_string s2)
                                 (take (nat end_idx) (chunk_data chunk))\<rparr>
                   in if isLastChunk
                      then
                        if isLastChunkZeroTerminated
                        then
                          (case utf8_decode E (utf8_json_string s3) of
                             None \<Rightarrow> Inl (LibraryError, s3)
                           | Some json_string \<Rightarrow>
                               let s4 =
                                 (case JSON_parse E json_string of
                                    None \<Rightarrow> emit (ConsoleError (LogParseFailed json_string)) s3
                                  | Some v \<Rightarrow>
                                      if v \<noteq> JUndefined
                                      then callHandlersForEvent ''message'' v s3
                                      else s3)
                               in Inr (True, s4\<lparr>utf8_json_string := []\<rparr>))
                        else
                          Inr (True, (emit (ConsoleError LogNotZeroTerminated) s3)
                                        \<lparr>utf8_json_string := []\<rparr>)
                      else Inr (True, s3)))"

subsection \<open>Sender\<close>

definition resetCurrent :: "pm_state \<Rightarrow> pm_state" where
  "resetCurrent s =
     s\<lparr>currentMessageType := None, failureCount := 0, offsetBytes := 0, chunkPayloadSize := 0\<rparr>"

definition getNextMessageType :: "pm_state \<Rightarrow> message_type option" where
  "getNextMessageType s =
     (if controlQueue s \<noteq> [] then Some Control
      else if objectQueue s \<noteq> [] then Some Object
      else None)"

definition isSessionOpen :: "pm_state \<Rightarrow> bool" where
  "isSessionOpen s \<longleftrightarrow> control_state s = ControlStateSessionOpen"

text \<open>
  \<open>_trySendNextControl\<close> hands \<open>controlQueue[0]\<close> (\<open>undefined\<close> on an empty queue) to
  \<open>__Pebble.sendAppMessage\<close> with the two control callbacks.
\<close>

definition trySendNextControl :: "pm_state \<Rightarrow> pm_state" where
  "trySendNextControl s = emit (SendAppMessage (js_index (controlQueue s) 0) Control) s"

definition scheduleAsyncPostMessageError ::
  "js_env \<Rightarrow> js_string \<Rightarrow> string \<Rightarrow> pm_state \<Rightarrow> pm_state result" where
  "scheduleAsyncPostMessageError E jsonString reason s =
     (case JSON_parse E jsonString of
        None \<Rightarrow> Inl (SyntaxError, s)
      | Some v \<Rightarrow>
          Inr (emit (ConsoleError (LogPostMessageFailed reason))
                 (callHandlersForEvent ''postmessageerror'' v s)))"

definition completeObject :: "js_env \<Rightarrow> string option \<Rightarrow> pm_state \<Rightarrow> pm_state result" where
  "completeObject E failureReasonOrUndefined s =
     (let completed = js_index (objectQueue s) 0;
          s1 = resetCurrent (s\<lparr>objectQueue := tl (objectQueue s)\<rparr>)
      in case failureReasonOrUndefined of
           None \<Rightarrow> Inr s1
         | Some reason \<Rightarrow>
             (case completed of
                None \<Rightarrow> Inl (TypeError ''Cannot read property json of undefined'', s1)
              | Some c \<Rightarrow> scheduleAsyncPostMessageError E (json c) reason s1))"

definition session_not_open_hint :: string where
  \<open>session_not_open_hint =
     ''Session not open. Hint: check out the "postmessageconnected" event.''\<close>

function sendNext :: "js_env \<Rightarrow> pm_state \<Rightarrow> pm_state result"
  and trySendNextChunk :: "js_env \<Rightarrow> pm_state \<Rightarrow> pm_state result"
  and chunkFailure :: "js_env \<Rightarrow> string \<Rightarrow> pm_state \<Rightarrow> pm_state result"
where
  "sendNext E s =
     (if currentMessageType s \<noteq> None then Inr s
      else if getNextMessageType s = None then Inr s
      else if getNextMessageType s = Some Control
      then Inr (trySendNextControl (s\<lparr>currentMessageType := Some Control\<rparr>))
      else trySendNextChunk E (s\<lparr>currentMessageType := Some Object\<rparr>))"
| "trySendNextChunk E s =
     (if getNextMessageType s \<noteq> Some Object then sendNext E (resetCurrent s)
      else if \<not> isSessionOpen s
      then chunkFailure E session_not_open_hint (s\<lparr>offsetBytes := 0\<rparr>)
      else
        let d = data (hd (objectQueue s));
            sizeRemaining = int (length d) - offsetBytes s;
            s1 = s\<lparr>chunkPayloadSize := min (tx_chunk_size (control_protocol s)) sizeRemaining\<rparr>;
            isFirst = (offsetBytes s1 = 0);
            isFirstBit = (if isFirst then js_shl 1 7 else 0);
            n = (if isFirst then int (length d) else offsetBytes s1);
            header = [js_and n 255,
                      js_and (js_sar n 8) 255,
                      js_and (js_sar n 16) 255,
                      js_or (js_and (js_sar n 24) (js_not (js_shl 1 7))) isFirstBit];
            chunkPayload = js_slice d (offsetBytes s1) (offsetBytes s1 + chunkPayloadSize s1)
        in Inr (emit (SendAppMessage (Some [(''ControlKeyChunk'', Arr (header @ chunkPayload))])
                        Object) s1))"
| "chunkFailure E e s =
     (let s1 = s\<lparr>failureCount := failureCount s + 1\<rparr>;
          willRetry = (failureCount s1 \<le> 3);
          s2 = emit (ConsoleError (LogChunkFailed willRetry e)) s1
      in if willRetry then Inr (emit (SetTimeout Object 1000) s2)
         else (case completeObject E (Some ''Too many failed transfer attempts'') s2 of
                 Inl x \<Rightarrow> Inl x
               | Inr s3 \<Rightarrow> sendNext E s3))"
  by pat_completeness auto

termination
  apply (relation "measure (\<lambda>x. case x of
          Inl (E, s) \<Rightarrow> 4 * length (objectQueue s)
                          + (if getNextMessageType s = Some Object then 2 else 0)
        | Inr (Inl (E, s)) \<Rightarrow> 4 * length (objectQueue s) + 1
        | Inr (Inr (E, e, s)) \<Rightarrow> 4 * length (objectQueue s))")
      apply simp
     apply (auto simp: getNextMessageType_def split: if_splits)[1]
    apply (auto simp: getNextMessageType_def resetCurrent_def split: if_splits)[1]
   apply simp
  apply (auto simp: completeObject_def scheduleAsyncPostMessageError_def Let_def emit_def
      resetCurrent_def callHandlersForEvent_def js_index_def getNextMessageType_def
      neq_Nil_conv split: option.splits if_splits)
  done

definition chunkSuccess :: "js_env \<Rightarrow> pm_state \<Rightarrow> pm_state result" where
  "chunkSuccess E s =
     (case js_index (objectQueue s) 0 of
        None \<Rightarrow> Inl (TypeError ''Cannot read property data of undefined'', s)
      | Some head \<Rightarrow>
          let s1 = s\<lparr>offsetBytes := offsetBytes s + chunkPayloadSize s\<rparr>
          in if offsetBytes s1 = int (length (data head))
             then (case completeObject E None s1 of
                     Inl x \<Rightarrow> Inl x
                   | Inr s2 \<Rightarrow> sendNext E s2)
             else trySendNextChunk E s1)"

definition controlSuccess :: "js_env \<Rightarrow> pm_state \<Rightarrow> pm_state result" where
  "controlSuccess E s = sendNext E (resetCurrent (s\<lparr>controlQueue := tl (controlQueue s)\<rparr>))"

definition createDataObject :: "js_env \<Rightarrow> js_value \<Rightarrow> js_error + data_object" where
  "createDataObject E ob =
     (case JSON_stringify E ob of
        StringifyThrows \<Rightarrow> Inl (Error ''First argument must be JSON-serializable.'')
      | StringifyUndefined \<Rightarrow>
          Inl (TypeError ''Argument at index 0 is not a JSON.stringify()-able object'')
      | StringifyString native_str_msg \<Rightarrow>
          (case utf8_encode E native_str_msg of
             None \<Rightarrow> Inl LibraryError
           | Some utf8_str_msg \<Rightarrow>
               Inr \<lparr>obj = ob, data = map int utf8_str_msg @ [0], json = native_str_msg\<rparr>))"

text \<open>
  The argument of the (disabled) debug log of \<open>sendObject\<close> is evaluated all the same, so an
  exception of \<open>JSON.stringify\<close> leaves \<open>sendObject\<close> before \<open>_createDataObject\<close> runs.
\<close>

definition sendObject :: "js_env \<Rightarrow> js_value \<Rightarrow> pm_state \<Rightarrow> pm_state result" where
  "sendObject E ob s =
     (if JSON_stringify E ob = StringifyThrows then Inl (StringifyError, s)
      else case createDataObject E ob of
             Inl err \<Rightarrow> Inl (err, s)
           | Inr dataObj \<Rightarrow> sendNext E (s\<lparr>objectQueue := objectQueue s @ [dataObj]\<rparr>))"

definition sendControl :: "js_env \<Rightarrow> dict \<Rightarrow> pm_state \<Rightarrow> pm_state result" where
  "sendControl E ob s = sendNext E (s\<lparr>controlQueue := controlQueue s @ [ob]\<rparr>)"

definition postMessage :: "js_env \<Rightarrow> js_value \<Rightarrow> pm_state \<Rightarrow> pm_state result" where
  "postMessage E ob s = sendObject E ob s"

subsection \<open>Session control protocol\<close>

definition ControlKeyResetRequest :: string where
  "ControlKeyResetRequest = ''ControlKeyResetRequest''"

definition ControlKeyResetComplete :: string where
  "ControlKeyResetComplete = ''ControlKeyResetComplete''"

definition ControlKeyChunk :: string where
  "ControlKeyChunk = ''ControlKeyChunk''"

definition ControlKeyUnsupportedError :: string where
  "ControlKeyUnsupportedError = ''ControlKeyUnsupportedError''"

record local_protocol =
  min_version :: int
  max_version :: int
  max_tx_chunk_size :: int
  max_rx_chunk_size :: int

definition PROTOCOL :: local_protocol where
  "PROTOCOL = \<lparr>min_version = 1, max_version = 1,
               max_tx_chunk_size = 1000, max_rx_chunk_size = 1000\<rparr>"

record remote_protocol =
  remote_min_version :: "int option"
  remote_max_version :: "int option"
  remote_max_tx_chunk_size :: int
  remote_max_rx_chunk_size :: int

text \<open>Indexing a number (the value is not an array) gives \<open>undefined\<close> everywhere.\<close>

definition kv_index :: "kv_value \<Rightarrow> nat \<Rightarrow> int option" where
  "kv_index v i = (case v of Num n \<Rightarrow> None | Arr xs \<Rightarrow> js_index xs i)"

definition unpackResetCompleteMessage :: "kv_value \<Rightarrow> remote_protocol" where
  "unpackResetCompleteMessage d =
     \<lparr>remote_min_version = kv_index d 0,
      remote_max_version = kv_index d 1,
      remote_max_tx_chunk_size = js_or (js_shl (bits_of (kv_index d 2)) 8) (bits_of (kv_index d 3)),
      remote_max_rx_chunk_size = js_or (js_shl (bits_of (kv_index d 4)) 8) (bits_of (kv_index d 5))\<rparr>"

text \<open>
  \<open>_unpackChunk\<close>. For a number, \<open>data.length <= 4\<close> is false (\<open>undefined <= 4\<close>), the
  header reads give \<open>undefined\<close>, and \<open>data.slice\<close> is not a function.
\<close>

definition unpackChunk :: "kv_value \<Rightarrow> pm_state \<Rightarrow> (chunk option \<times> pm_state) result" where
  "unpackChunk d s =
     (case d of
        Num n \<Rightarrow> Inl (TypeError ''data.slice is not a function'', s)
      | Arr xs \<Rightarrow>
          if length xs \<le> 4 then Inr (None, emit (ConsoleError LogChunkTooShort) s)
          else
            let is_first_bit = js_shl 1 7;
                first = (is_first_bit = js_and (bits_of (js_index xs 3)) is_first_bit);
                msbyte = js_and (js_not is_first_bit) (bits_of (js_index xs 3));
                num31bits =
                  js_or (js_or (js_or (js_shl msbyte 24) (js_shl (bits_of (js_index xs 2)) 16))
                               (js_shl (bits_of (js_index xs 1)) 8))
                        (bits_of (js_index xs 0));
                payload = js_slice xs 4 (int (length xs))
            in Inr (Some (if first then FirstChunk num31bits payload
                          else NextChunk num31bits payload), s))"

definition remoteProtocolValidateAndSet :: "remote_protocol \<Rightarrow> pm_state \<Rightarrow> bool \<times> pm_state" where
  "remoteProtocolValidateAndSet remote s =
     (case (remote_min_version remote, remote_max_version remote) of
        (Some rmin, Some rmax) \<Rightarrow>
          if rmin > max_version PROTOCOL \<or> rmax < min_version PROTOCOL then (False, s)
          else (True, s\<lparr>control_protocol :=
                          \<lparr>version = min rmax (max_version PROTOCOL),
                           tx_chunk_size = min (remote_max_rx_chunk_size remote)
                                               (max_tx_chunk_size PROTOCOL),
                           rx_chunk_size = min (remote_max_tx_chunk_size remote)
                                               (max_rx_chunk_size PROTOCOL)\<rparr>\<rparr>)
      | _ \<Rightarrow> (False, s))"

definition sendControlMessage :: "js_env \<Rightarrow> dict \<Rightarrow> pm_state \<Rightarrow> pm_state result" where
  "sendControlMessage E msg s = sendControl E msg s"

text \<open>Storing into the \<open>Uint8Array\<close> keeps the low 8 bits.\<close>

definition to_uint8 :: "int \<Rightarrow> int" where
  "to_uint8 x = x mod 256"

definition controlSendResetComplete :: "js_env \<Rightarrow> pm_state \<Rightarrow> pm_state result" where
  "controlSendResetComplete E s =
     sendControlMessage E
       [(''ControlKeyResetComplete'',
         Arr (map to_uint8
                [min_version PROTOCOL,
                 max_version PROTOCOL,
                 js_sar (max_tx_chunk_size PROTOCOL) 8,
                 max_tx_chunk_size PROTOCOL,
                 js_sar (max_rx_chunk_size PROTOCOL) 8,
                 max_rx_chunk_size PROTOCOL]))] s"

definition controlSendResetRequest :: "js_env \<Rightarrow> pm_state \<Rightarrow> pm_state result" where
  "controlSendResetRequest E s = sendControlMessage E [(''ControlKeyResetRequest'', Num 0)] s"

definition controlSendUnsupportedError :: "js_env \<Rightarrow> pm_state \<Rightarrow> pm_state result" where
  "controlSendUnsupportedError E s =
     sendControlMessage E [(''ControlKeyUnsupportedError'', Num 0)] s"

definition resetProtocol :: "pm_state \<Rightarrow> pm_state" where
  "resetProtocol s = s\<lparr>control_protocol := zero_protocol\<rparr>"

fun ControlTransitions ::
  "js_env \<Rightarrow> control_state \<Rightarrow> control_state \<Rightarrow> pm_state \<Rightarrow> pm_state result" where
  "ControlTransitions E ControlStateDisconnected from_state s =
     Inr ((resetProtocol s)
            \<lparr>control_state := ControlStateAwaitingResetCompleteRemoteInitiated\<rparr>)"
| "ControlTransitions E ControlStateAwaitingResetCompleteRemoteInitiated from_state s =
     controlSendResetComplete E
       ((resetProtocol s)\<lparr>control_state := ControlStateAwaitingResetCompleteRemoteInitiated\<rparr>)"
| "ControlTransitions E ControlStateAwaitingResetCompleteLocalInitiated from_state s =
     (case (if from_state \<noteq> ControlStateAwaitingResetCompleteLocalInitiated
            then controlSendResetRequest E s else Inr s) of
        Inl x \<Rightarrow> Inl x
      | Inr s1 \<Rightarrow>
          Inr ((resetProtocol s1)
                 \<lparr>control_state := ControlStateAwaitingResetCompleteLocalInitiated\<rparr>))"
| "ControlTransitions E ControlStateSessionOpen from_state s =
     Inr (callHandlersForEvent ''postmessageconnected'' JUndefined
            (s\<lparr>control_state := ControlStateSessionOpen\<rparr>))"

definition control_enter :: "js_env \<Rightarrow> control_state \<Rightarrow> pm_state \<Rightarrow> pm_state result" where
  "control_enter E to_state s =
     (let prev_state = control_state s
      in case ControlTransitions E to_state (control_state s) s of
           Inl x \<Rightarrow> Inl x
         | Inr s1 \<Rightarrow>
             if prev_state = ControlStateSessionOpen \<and> to_state \<noteq> ControlStateSessionOpen
             then Inr (callHandlersForEvent ''postmessagedisconnected'' JUndefined s1)
             else Inr s1)"

text \<open>\<open>Sender._controlFailure\<close> (it refers to \<open>_control\<close>, hence its place here).\<close>

definition controlFailure :: "js_env \<Rightarrow> string \<Rightarrow> pm_state \<Rightarrow> pm_state result" where
  "controlFailure E e s =
     (let s1 = s\<lparr>failureCount := failureCount s + 1\<rparr>;
          willRetry = (failureCount s1 \<le> 3)
      in if willRetry then Inr (emit (SetTimeout Control 1000) s1)
         else
           let s2 = resetCurrent (s1\<lparr>controlQueue := tl (controlQueue s1)\<rparr>)
           in case control_enter E ControlStateDisconnected s2 of
                Inl x \<Rightarrow> Inl x
              | Inr s3 \<Rightarrow> sendNext E s3)"

text \<open>
  \<open>ControlHandlers\<close>. The tests \<open>Key in payload\<close> and the reads \<open>payload[Key]\<close> are the
  lookups \<open>map_of payload Key\<close>.
\<close>

fun ControlHandlers :: "js_env \<Rightarrow> control_state \<Rightarrow> dict \<Rightarrow> pm_state \<Rightarrow> pm_state result" where
  "ControlHandlers E ControlStateDisconnected payload s = Inr s"
| "ControlHandlers E ControlStateAwaitingResetCompleteRemoteInitiated payload s =
     (case map_of payload ControlKeyResetComplete of
        Some v \<Rightarrow>
          (case remoteProtocolValidateAndSet (unpackResetCompleteMessage v) s of
             (True, s1) \<Rightarrow> control_enter E ControlStateSessionOpen s1
           | (False, s1) \<Rightarrow> Inr s1)
      | None \<Rightarrow>
          if js_in ControlKeyResetRequest payload
          then control_enter E ControlStateAwaitingResetCompleteRemoteInitiated s
          else if js_in ControlKeyChunk payload
          then control_enter E ControlStateAwaitingResetCompleteLocalInitiated s
          else if js_in ControlKeyUnsupportedError payload
          then Inl (Error ''Unsupported protocol error'', s)
          else Inr s)"
| "ControlHandlers E ControlStateAwaitingResetCompleteLocalInitiated payload s =
     (case map_of payload ControlKeyResetComplete of
        Some v \<Rightarrow>
          (case remoteProtocolValidateAndSet (unpackResetCompleteMessage v) s of
             (True, s1) \<Rightarrow>
               (case controlSendResetComplete E s1 of
                  Inl x \<Rightarrow> Inl x
                | Inr s2 \<Rightarrow> control_enter E ControlStateSessionOpen s2)
           | (False, s1) \<Rightarrow> controlSendUnsupportedError E s1)
      | None \<Rightarrow> Inr s)"
| "ControlHandlers E ControlStateSessionOpen payload s =
     (case map_of payload ControlKeyChunk of
        Some v \<Rightarrow>
          (case unpackChunk v s of
             Inl x \<Rightarrow> Inl x
           | Inr (chunk_opt, s1) \<Rightarrow>
               (case handleChunkReceived E chunk_opt s1 of
                  Inl x \<Rightarrow> Inl x
                | Inr (False, s2) \<Rightarrow>
                    control_enter E ControlStateAwaitingResetCompleteLocalInitiated s2
                | Inr (True, s2) \<Rightarrow> Inr s2))
      | None \<Rightarrow>
          if js_in ControlKeyResetRequest payload
          then control_enter E ControlStateAwaitingResetCompleteRemoteInitiated s
          else control_enter E ControlStateAwaitingResetCompleteLocalInitiated s)"

definition control_handle :: "js_env \<Rightarrow> dict \<Rightarrow> pm_state \<Rightarrow> pm_state result" where
  "control_handle E payload s = ControlHandlers E (control_state s) payload s"

subsection \<open>Public listener interface\<close>

definition handlers_add :: "handler \<Rightarrow> handlers_list \<Rightarrow> handlers_list" where
  "handlers_add h hl = hl\<lparr>handlers := handlers hl @ [h]\<rparr>"

fun index_of :: "'a \<Rightarrow> 'a list \<Rightarrow> nat option" where
  "index_of x [] = None"
| "index_of x (y # ys) =
     (if x = y then Some 0 else (case index_of x ys of None \<Rightarrow> None | Some i \<Rightarrow> Some (Suc i)))"

definition handlers_remove :: "handler \<Rightarrow> handlers_list \<Rightarrow> handlers_list" where
  "handlers_remove h hl =
     (case index_of h (handlers hl) of
        None \<Rightarrow> hl
      | Some idx \<Rightarrow>
          \<lparr>pos = (if idx < pos hl then max (pos hl - 1) 0 else pos hl),
           handlers = take idx (handlers hl) @ drop (Suc idx) (handlers hl)\<rparr>)"

definition is_function :: "handler \<Rightarrow> bool" where
  "is_function h = (case h of HFunction f \<Rightarrow> True | _ \<Rightarrow> False)"

definition on :: "string \<Rightarrow> handler \<Rightarrow> pm_state \<Rightarrow> pm_state result" where
  "on event_name h s =
     (if \<not> is_function h then Inl (TypeError ''Handler for event expected'', s)
      else
        let hl = (case EVENTS s event_name of
                    None \<Rightarrow> \<lparr>pos = 0, handlers = []\<rparr>
                  | Some l \<Rightarrow> l);
            s1 = s\<lparr>EVENTS := (EVENTS s)(event_name \<mapsto> handlers_add h hl)\<rparr>
        in if (event_name = ''postmessageconnected''
                 \<and> control_state s1 = ControlStateSessionOpen)
              \<or> (event_name = ''postmessagedisconnected''
                 \<and> control_state s1 \<noteq> ControlStateSessionOpen)
           then Inr (callHandler h event_name JUndefined s1)
           else Inr s1)"

definition addEventListener :: "string \<Rightarrow> handler \<Rightarrow> pm_state \<Rightarrow> pm_state result" where
  "addEventListener event_name h s =
     (if isPostMessageEvent event_name then on event_name h s
      else if event_name = ''appmessage''
      then Inl (Error ''App Message not supported with Rocky.js apps. See Pebble.postMessage()'', s)
      else Inr (emit (NativeAddEventListener event_name h) s))"

definition off :: "string \<Rightarrow> handler \<Rightarrow> pm_state \<Rightarrow> pm_state result" where
  "off event_name h s =
     (if h = HUndefined then Inl (TypeError ''Not enough arguments (missing handler)'', s)
      else case EVENTS s event_name of
             None \<Rightarrow> Inr s
           | Some hl \<Rightarrow> Inr (s\<lparr>EVENTS := (EVENTS s)(event_name \<mapsto> handlers_remove h hl)\<rparr>))"

definition removeEventListener :: "string \<Rightarrow> handler \<Rightarrow> pm_state \<Rightarrow> pm_state result" where
  "removeEventListener event_name h s =
     (if isPostMessageEvent event_name then off event_name h s
      else Inr (emit (NativeRemoveEventListener event_name h) s))"

subsection \<open>Events of the environment\<close>

text \<open>
  What can happen to the module: the two native events it listens to, the completion
  callbacks it handed to \<open>sendAppMessage\<close>, the retry timers it set, and the calls of the
  application. An exception that leaves the module is recorded and the state stays as the
  exception left it.
\<close>

datatype event =
    Ready
  | AppMessage dict
  | ControlSuccess
  | ControlFailure string
  | ChunkSuccess
  | ChunkFailure string
  | RetryControl
  | RetryChunk
  | PostMessage js_value
  | AddEventListener string handler
  | RemoveEventListener string handler

fun deliver :: "js_env \<Rightarrow> event \<Rightarrow> pm_state \<Rightarrow> pm_state result" where
  "deliver E Ready s = control_enter E ControlStateAwaitingResetCompleteLocalInitiated s"
| "deliver E (AppMessage payload) s = control_handle E payload s"
| "deliver E ControlSuccess s = controlSuccess E s"
| "deliver E (ControlFailure e) s = controlFailure E e s"
| "deliver E ChunkSuccess s = chunkSuccess E s"
| "deliver E (ChunkFailure e) s = chunkFailure E e s"
| "deliver E RetryControl s = Inr (trySendNextControl s)"
| "deliver E RetryChunk s = trySendNextChunk E s"
| "deliver E (PostMessage ob) s = postMessage E ob s"
| "deliver E (AddEventListener event_name h) s = addEventListener event_name h s"
| "deliver E (RemoveEventListener event_name h) s = removeEventListener event_name h s"

definition step :: "js_env \<Rightarrow> pm_state \<Rightarrow> event \<Rightarrow> pm_state" where
  "step E s ev =
     (case deliver E ev s of
        Inl (err, s') \<Rightarrow> emit (Uncaught err) s'
      | Inr s' \<Rightarrow> s')"

definition run :: "js_env \<Rightarrow> event list \<Rightarrow> pm_state" where
  "run E evs = foldl (step E) initial_state evs"

text \<open>The receiver alone, fed a sequence of (unpacked) chunks.\<close>

definition receive :: "js_env \<Rightarrow> pm_state \<Rightarrow> chunk option \<Rightarrow> pm_state" where
  "receive E s c =
     (case handleChunkReceived E c s of
        Inl (err, s') \<Rightarrow> emit (Uncaught err) s'
      | Inr (ok, s') \<Rightarrow> s')"

subsection \<open>An environment for the examples\<close>

text \<open>
  The examples below need the library functions at a few inputs only: the JSON text \<open>1\<close>
  of the number 1, the empty text (which is not JSON), and ASCII strings, which UTF-8 leaves
  as they are.
\<close>

definition example_env :: js_env where
  "example_env =
     \<lparr>JSON_stringify = (\<lambda>v. if v = JNum 1 then StringifyString [49] else StringifyUndefined),
      JSON_parse = (\<lambda>t. if t = [49] then Some (JNum 1) else None),
      utf8_encode = (\<lambda>t. Some t),
      utf8_decode = (\<lambda>t. Some t)\<rparr>"

text \<open>The handlers a dispatch of \<open>event_name\<close> invokes in state \<open>s\<close>.\<close>

definition registered :: "pm_state \<Rightarrow> string \<Rightarrow> handler list" where
  "registered s event_name = (case EVENTS s event_name of None \<Rightarrow> [] | Some hl \<Rightarrow> handlers hl)"

text \<open>
  A session as the handshake opens it: \<open>ready\<close>, the remote's \<open>ResetComplete\<close> for
  version 1 and chunks of 1000 bytes, and the two control messages delivered.
\<close>

definition open_session :: pm_state where
  "open_session =
     run example_env
       [Ready,
        AppMessage [(''ControlKeyResetComplete'', Arr [1, 1, 3, 232, 3, 232])],
        ControlSuccess,
        ControlSuccess]"

text \<open>
  One object (the number 1, two bytes with the terminator) queued in the open session, with a
  listener for \<open>postmessageerror\<close>; its only chunk has failed three times.
\<close>

definition failing_object_session :: pm_state where
  "failing_object_session =
     run example_env
       [AddEventListener ''postmessageerror'' (HFunction 1),
        Ready,
        AppMessage [(''ControlKeyResetComplete'', Arr [1, 1, 3, 232, 3, 232])],
        ControlSuccess,
        ControlSuccess,
        PostMessage (JNum 1),
        ChunkFailure ''nack'', RetryChunk,
        ChunkFailure ''nack'', RetryChunk,
        ChunkFailure ''nack'', RetryChunk]"

text \<open>
  The same object with chunks of one byte. While its first chunk is in flight the remote
  resets the session and completes the new handshake, which leaves the local ResetComplete
  in the control queue; then the first chunk is acknowledged. \<open>preempted_session\<close> is the
  state in which \<open>_chunkSuccess\<close> calls \<open>_trySendNextChunk\<close>: the offset has advanced to 1.
\<close>

definition preempted_session :: pm_state where
  "preempted_session =
     (run example_env
        [Ready,
         AppMessage [(''ControlKeyResetComplete'', Arr [1, 1, 0, 1, 0, 1])],
         ControlSuccess,
         ControlSuccess,
         PostMessage (JNum 1),
         AppMessage [(''ControlKeyResetRequest'', Num 0)],
         AppMessage [(''ControlKeyResetComplete'', Arr [1, 1, 0, 1, 0, 1])]])
     \<lparr>offsetBytes := 1\<rparr>"

text \<open>
  The ordinary course of a preemption: the session is open with chunks of one byte,
  the first chunk of the object is in flight when the remote sends a ResetRequest (Control
  enters \<open>AwaitingResetCompleteRemoteInitiated\<close> and queues its ResetComplete); the chunk
  is acknowledged, the control message is sent and acknowledged, and the retry timer fires
  three times.
\<close>

definition ordinary_preemption :: "event list" where
  "ordinary_preemption =
     [Ready,
      AppMessage [(''ControlKeyResetComplete'', Arr [1, 1, 0, 1, 0, 1])],
      ControlSuccess,
      ControlSuccess,
      PostMessage (JNum 1),
      AppMessage [(''ControlKeyResetRequest'', Num 0)],
      ChunkSuccess,
      ControlSuccess,
      RetryChunk,
      RetryChunk,
      RetryChunk]"


subsection \<open>Notions for the properties\<close>

text \<open>The state a call leaves, whether it returned or threw.\<close>

definition state_of :: "pm_state result \<Rightarrow> pm_state" where
  "state_of r = (case r of Inl (e, s) \<Rightarrow> s | Inr s \<Rightarrow> s)"

text \<open>
  What the sender's own procedures may do to the rest of the module: they leave Control
  alone, never add to the control queue, and whatever they hand to the lower transport is a
  queued control message or a chunk dictionary.
\<close>

fun sent_from :: "dict list \<Rightarrow> effect \<Rightarrow> bool" where
  "sent_from q (SendAppMessage (Some d) t) \<longleftrightarrow> d \<in> set q \<or> (\<exists>a. d = [(''ControlKeyChunk'', Arr a)])"
| "sent_from q x \<longleftrightarrow> True"

definition sender_step :: "pm_state \<Rightarrow> pm_state \<Rightarrow> bool" where
  "sender_step s s' \<longleftrightarrow>
     control_state s' = control_state s
     \<and> control_protocol s' = control_protocol s
     \<and> set (controlQueue s') \<subseteq> set (controlQueue s)
     \<and> (\<forall>x \<in> set (out s'). x \<in> set (out s) \<or> sent_from (controlQueue s) x)"

text \<open>
  The key strings of the wire format, the dictionaries of one such key, and the dictionaries
  that the trace of a state shows as handed to \<open>sendAppMessage\<close>.
\<close>

definition control_keys :: "string set" where
  "control_keys = {''ControlKeyResetRequest'', ''ControlKeyResetComplete'',
                   ''ControlKeyChunk'', ''ControlKeyUnsupportedError''}"

fun dict_ok :: "dict \<Rightarrow> bool" where
  "dict_ok [(k, v)] \<longleftrightarrow> k \<in> control_keys"
| "dict_ok d \<longleftrightarrow> False"

fun handed :: "effect \<Rightarrow> dict list" where
  "handed (SendAppMessage (Some d) t) = [d]"
| "handed x = []"

definition handed_dicts :: "pm_state \<Rightarrow> dict list" where
  "handed_dicts s = concat (map handed (out s))"

definition keys_inv :: "pm_state \<Rightarrow> bool" where
  "keys_inv s \<longleftrightarrow> (\<forall>d \<in> set (controlQueue s). dict_ok d) \<and> (\<forall>d \<in> set (handed_dicts s). dict_ok d)"

text \<open>What holds of the negotiated parameters in every reachable state.\<close>

definition proto_inv :: "pm_state \<Rightarrow> bool" where
  "proto_inv s \<longleftrightarrow>
     (control_state s = ControlStateSessionOpen \<longrightarrow>
        version (control_protocol s) = 1
        \<and> tx_chunk_size (control_protocol s) \<le> 1000
        \<and> rx_chunk_size (control_protocol s) \<le> 1000)
     \<and> (control_state s \<noteq> ControlStateSessionOpen \<longrightarrow> control_protocol s = zero_protocol)"

text \<open>
  Inbound dictionaries whose arrays are byte arrays, as the app-message channel delivers
  them.
\<close>

fun byte_value :: "kv_value \<Rightarrow> bool" where
  "byte_value (Num n) \<longleftrightarrow> True"
| "byte_value (Arr xs) \<longleftrightarrow> list_all (\<lambda>x. 0 \<le> x \<and> x < 256) xs"

definition byte_payload :: "dict \<Rightarrow> bool" where
  "byte_payload p \<longleftrightarrow> list_all (\<lambda>kv. byte_value (snd kv)) p"

fun byte_event :: "event \<Rightarrow> bool" where
  "byte_event (AppMessage p) \<longleftrightarrow> byte_payload p"
| "byte_event ev \<longleftrightarrow> True"

text \<open>
  The negotiation in the words of the specification: the event is a remote ResetComplete
  whose version range contains the local version 1, and the parameters are the local
  version and, for each direction, the smaller of the local maximum 1000 and the size the
  remote advertised for the opposite direction.
\<close>

definition opened_by :: "event \<Rightarrow> protocol \<Rightarrow> bool" where
  "opened_by ev p \<longleftrightarrow>
     (\<exists>payload v rmin rmax.
        ev = AppMessage payload
        \<and> map_of payload ControlKeyResetComplete = Some v
        \<and> remote_min_version (unpackResetCompleteMessage v) = Some rmin
        \<and> remote_max_version (unpackResetCompleteMessage v) = Some rmax
        \<and> rmin \<le> 1 \<and> 1 \<le> rmax
        \<and> p = \<lparr>version = 1,
                 tx_chunk_size =
                   min 1000 (remote_max_rx_chunk_size (unpackResetCompleteMessage v)),
                 rx_chunk_size =
                   min 1000 (remote_max_tx_chunk_size (unpackResetCompleteMessage v))\<rparr>)"

definition nonneg_inv :: "pm_state \<Rightarrow> bool" where
  "nonneg_inv s \<longleftrightarrow>
     (control_state s = ControlStateSessionOpen \<longrightarrow>
        0 \<le> tx_chunk_size (control_protocol s) \<and> 0 \<le> rx_chunk_size (control_protocol s))"

declare sendNext.simps [simp del] trySendNextChunk.simps [simp del] chunkFailure.simps [simp del]


section \<open>Properties\<close>

subsection \<open>Auxiliary facts\<close>

lemma sendControl_eq:
  "sendControl E m s =
     Inr (if currentMessageType s = None
          then emit (SendAppMessage (js_index (controlQueue s @ [m]) 0) Control)
                 (s\<lparr>controlQueue := controlQueue s @ [m], currentMessageType := Some Control\<rparr>)
          else s\<lparr>controlQueue := controlQueue s @ [m]\<rparr>)"
  by (simp add: sendControl_def sendNext.simps getNextMessageType_def trySendNextControl_def)

lemma enter_local_from_open:
  assumes "control_state s = ControlStateSessionOpen"
  shows "\<exists>s'. control_enter E ControlStateAwaitingResetCompleteLocalInitiated s = Inr s'
      \<and> control_state s' = ControlStateAwaitingResetCompleteLocalInitiated
      \<and> control_protocol s' = zero_protocol
      \<and> controlQueue s' = controlQueue s @ [[(''ControlKeyResetRequest'', Num 0)]]
      \<and> out s' = out s
           @ (if currentMessageType s = None
              then [SendAppMessage
                      (js_index (controlQueue s @ [[(''ControlKeyResetRequest'', Num 0)]]) 0)
                      Control]
              else [])
           @ [CallHandlers ''postmessagedisconnected'' None
                (registered s ''postmessagedisconnected'')]"
  using assms
  by (auto simp: control_enter_def controlSendResetRequest_def sendControlMessage_def
      sendControl_eq resetProtocol_def callHandlersForEvent_def emit_def msg_data_def
      registered_def split: option.splits)

lemma open_session_open: "control_state open_session = ControlStateSessionOpen"
  by code_simp

lemma open_session_fields:
  "controlQueue open_session = []"
  "currentMessageType open_session = None"
  "objectQueue open_session = []"
  "control_protocol open_session = \<lparr>version = 1, tx_chunk_size = 1000, rx_chunk_size = 1000\<rparr>"
  "failureCount open_session = 0"
  "offsetBytes open_session = 0"
  "utf8_json_string open_session = []"
  by code_simp+






lemma sender_step_refl [simp]: "sender_step s s"
  by (simp add: sender_step_def)

lemma sent_from_mono: "sent_from q x \<Longrightarrow> set q \<subseteq> set q' \<Longrightarrow> sent_from q' x"
  by (cases "(q, x)" rule: sent_from.cases) auto

lemma sender_step_trans: "sender_step s s' \<Longrightarrow> sender_step s' s'' \<Longrightarrow> sender_step s s''"
  unfolding sender_step_def
  by (metis sent_from_mono subset_trans)

lemma sender_step_emit:
  "sent_from (controlQueue s) x \<Longrightarrow> sender_step s (emit x s)"
  by (auto simp: sender_step_def emit_def)

lemma sender_step_callHandlers: "sender_step s (callHandlersForEvent n v s)"
  by (auto simp: sender_step_def callHandlersForEvent_def emit_def split: option.splits)

lemma sender_step_completeObject: "sender_step s (state_of (completeObject E r s))"
  by (auto simp: sender_step_def completeObject_def Let_def state_of_def resetCurrent_def
      scheduleAsyncPostMessageError_def callHandlersForEvent_def emit_def
      split: option.splits)

lemma sender_step_sendNext:
  "sender_step s (state_of (sendNext E s))"
  "sender_step s (state_of (trySendNextChunk E s))"
  "sender_step s (state_of (chunkFailure E e s))"
proof (induction E s and E s and E e s rule: sendNext_trySendNextChunk_chunkFailure.induct)
  case (1 E s)
  show ?case
  proof (cases "currentMessageType s = None \<and> getNextMessageType s = Some Object")
    case True
    have "sender_step s (s\<lparr>currentMessageType := Some Object\<rparr>)"
      by (simp add: sender_step_def)
    moreover have "sender_step (s\<lparr>currentMessageType := Some Object\<rparr>)
             (state_of (trySendNextChunk E (s\<lparr>currentMessageType := Some Object\<rparr>)))"
      using True by (intro "1.IH") auto
    ultimately show ?thesis
      using True by (subst sendNext.simps) (auto intro: sender_step_trans)
  next
    case False
    then show ?thesis
      apply (subst sendNext.simps)
      apply (auto simp: state_of_def sender_step_def trySendNextControl_def emit_def
          js_index_def getNextMessageType_def split: if_splits)
      done
  qed
next
  case (2 E s)
  show ?case
  proof (cases "getNextMessageType s \<noteq> Some Object")
    case True
    have "sender_step s (resetCurrent s)"
      by (simp add: sender_step_def resetCurrent_def)
    with "2.IH"(1) [OF True] True show ?thesis
      by (subst trySendNextChunk.simps) (auto intro: sender_step_trans)
  next
    case no: False
    show ?thesis
    proof (cases "isSessionOpen s")
      case True
      with no show ?thesis
        by (subst trySendNextChunk.simps)
          (auto simp: state_of_def sender_step_def emit_def Let_def)
    next
      case False
      have "sender_step s (s\<lparr>offsetBytes := 0\<rparr>)"
        by (simp add: sender_step_def)
      with "2.IH"(2) no False show ?thesis
        by (subst trySendNextChunk.simps) (auto intro: sender_step_trans)
    qed
  qed
next
  case (3 E e s)
  let ?s2 = "emit (ConsoleError (LogChunkFailed (failureCount s + 1 \<le> 3) e))
               (s\<lparr>failureCount := failureCount s + 1\<rparr>)"
  have a: "sender_step s ?s2"
    by (simp add: sender_step_def emit_def)
  show ?case
  proof (cases "failureCount s + 1 \<le> 3")
    case True
    then show ?thesis
      by (subst chunkFailure.simps)
        (auto simp: state_of_def sender_step_def emit_def Let_def)
  next
    case False
    have b: "sender_step ?s2
               (state_of (completeObject E (Some ''Too many failed transfer attempts'') ?s2))"
      by (rule sender_step_completeObject)
    show ?thesis
    proof (cases "completeObject E (Some ''Too many failed transfer attempts'') ?s2")
      case (Inl x)
      with a b False show ?thesis
        by (subst chunkFailure.simps)
          (auto simp: Let_def state_of_def intro: sender_step_trans split: prod.splits)
    next
      case (Inr s3)
      have "sender_step s3 (state_of (sendNext E s3))"
        using False Inr by (intro "3.IH") auto
      with a b False Inr show ?thesis
        by (subst chunkFailure.simps)
          (auto simp: Let_def state_of_def intro: sender_step_trans)
    qed
  qed
qed

lemma handed_cases: "d \<in> set (handed x) \<Longrightarrow> \<exists>t. x = SendAppMessage (Some d) t"
  by (cases x rule: handed.cases) auto

lemma keys_inv_sender_step: "keys_inv s \<Longrightarrow> sender_step s s' \<Longrightarrow> keys_inv s'"
  unfolding keys_inv_def sender_step_def handed_dicts_def
  apply (intro conjI ballI)
   apply blast
  apply clarsimp
  subgoal for d x
    apply (drule handed_cases)
    apply clarsimp
    apply (drule bspec, assumption)
    apply (erule disjE)
     apply force
    apply (auto simp: control_keys_def)
    done
  done

lemma proto_inv_sender_step: "proto_inv s \<Longrightarrow> sender_step s s' \<Longrightarrow> proto_inv s'"
  by (simp add: proto_inv_def sender_step_def)

lemma keys_inv_uncaught [simp]: "keys_inv (emit (Uncaught e) s) = keys_inv s"
  by (simp add: keys_inv_def emit_def handed_dicts_def)

lemma proto_inv_uncaught [simp]: "proto_inv (emit (Uncaught e) s) = proto_inv s"
  by (simp add: proto_inv_def emit_def)

lemma sender_step_uncaught: "sender_step s (emit (Uncaught e) s)"
  by (simp add: sender_step_emit)

lemma sender_step_handleChunkReceived:
  "handleChunkReceived E c s = Inr (b, s') \<Longrightarrow> sender_step s s'"
  "handleChunkReceived E c s = Inl (e, s') \<Longrightarrow> sender_step s s'"
  by (auto simp: handleChunkReceived_def Let_def sender_step_def emit_def callHandlersForEvent_def
      split: option.splits if_splits chunk.splits sum.splits)

lemma sender_step_unpackChunk:
  "unpackChunk v s = Inr (c, s') \<Longrightarrow> sender_step s s'"
  "unpackChunk v s = Inl (e, s') \<Longrightarrow> sender_step s s'"
  by (auto simp: unpackChunk_def Let_def sender_step_def emit_def
      split: kv_value.splits if_splits)

lemma sendControl_invs:
  "\<exists>s'. sendControl E m s = Inr s'
     \<and> control_state s' = control_state s \<and> control_protocol s' = control_protocol s
     \<and> (keys_inv s \<longrightarrow> dict_ok m \<longrightarrow> keys_inv s')"
  by (auto simp: sendControl_eq emit_def keys_inv_def handed_dicts_def js_index_def nth_append
      split: if_splits)

lemma callHandlers_invs:
  "control_state (callHandlersForEvent n v s) = control_state s"
  "control_protocol (callHandlersForEvent n v s) = control_protocol s"
  "keys_inv (callHandlersForEvent n v s) = keys_inv s"
  by (auto simp: callHandlersForEvent_def emit_def keys_inv_def handed_dicts_def
      split: option.splits)

lemma keys_inv_ctl_update [simp]:
  "keys_inv (s\<lparr>control_state := c\<rparr>) = keys_inv s"
  "keys_inv (s\<lparr>control_protocol := p\<rparr>) = keys_inv s"
  "keys_inv (resetProtocol s) = keys_inv s"
  by (simp_all add: keys_inv_def resetProtocol_def handed_dicts_def)

lemma control_enter_invs:
  "\<exists>s'. control_enter E to_state s = Inr s'
     \<and> control_state s' = (if to_state = ControlStateDisconnected
                            then ControlStateAwaitingResetCompleteRemoteInitiated else to_state)
     \<and> control_protocol s' = (if to_state = ControlStateSessionOpen
                               then control_protocol s else zero_protocol)
     \<and> (keys_inv s \<longrightarrow> keys_inv s')"
proof (cases to_state)
  case ControlStateDisconnected
  then show ?thesis
    by (auto simp: control_enter_def callHandlers_invs resetProtocol_def)
next
  case ControlStateAwaitingResetCompleteRemoteInitiated
  let ?m = "[(''ControlKeyResetComplete'',
         Arr (map to_uint8
                [min_version PROTOCOL,
                 max_version PROTOCOL,
                 js_sar (max_tx_chunk_size PROTOCOL) 8,
                 max_tx_chunk_size PROTOCOL,
                 js_sar (max_rx_chunk_size PROTOCOL) 8,
                 max_rx_chunk_size PROTOCOL]))]"
  let ?s0 = "(resetProtocol s)\<lparr>control_state := ControlStateAwaitingResetCompleteRemoteInitiated\<rparr>"
  have k: "dict_ok ?m" by (simp add: control_keys_def)
  have k0: "keys_inv s \<Longrightarrow> keys_inv ?s0"
    by simp
  from sendControl_invs [of E ?m ?s0] obtain s1 where
    s1: "sendControl E ?m ?s0 = Inr s1"
      "control_state s1 = ControlStateAwaitingResetCompleteRemoteInitiated"
      "control_protocol s1 = zero_protocol"
      "keys_inv ?s0 \<longrightarrow> keys_inv s1"
    using k by (auto simp: resetProtocol_def)
  with ControlStateAwaitingResetCompleteRemoteInitiated k0 show ?thesis
    by (auto simp: control_enter_def controlSendResetComplete_def sendControlMessage_def
        callHandlers_invs)
next
  case ControlStateAwaitingResetCompleteLocalInitiated
  let ?m = "[(''ControlKeyResetRequest'', Num 0)]"
  have k: "dict_ok ?m" by (simp add: control_keys_def)
  from sendControl_invs [of E ?m s] obtain s1 where
    s1: "sendControl E ?m s = Inr s1"
      "control_state s1 = control_state s"
      "control_protocol s1 = control_protocol s"
      "keys_inv s \<longrightarrow> keys_inv s1"
    using k by auto
  from ControlStateAwaitingResetCompleteLocalInitiated s1 show ?thesis
    by (auto simp: control_enter_def controlSendResetRequest_def sendControlMessage_def
        callHandlers_invs resetProtocol_def)
next
  case ControlStateSessionOpen
  then show ?thesis
    by (auto simp: control_enter_def callHandlers_invs)
qed

lemma proto_inv_enter_closed:
  "to_state \<noteq> ControlStateSessionOpen \<Longrightarrow> proto_inv (state_of (control_enter E to_state s))"
  using control_enter_invs [of E to_state s]
  by (auto simp: state_of_def proto_inv_def split: if_splits)

lemma proto_inv_enter_open:
  "version (control_protocol s) = 1 \<Longrightarrow> tx_chunk_size (control_protocol s) \<le> 1000
     \<Longrightarrow> rx_chunk_size (control_protocol s) \<le> 1000
     \<Longrightarrow> proto_inv (state_of (control_enter E ControlStateSessionOpen s))"
  using control_enter_invs [of E ControlStateSessionOpen s]
  by (auto simp: state_of_def proto_inv_def)

lemma keys_inv_enter: "keys_inv s \<Longrightarrow> keys_inv (state_of (control_enter E to_state s))"
  using control_enter_invs [of E to_state s]
  by (auto simp: state_of_def)

lemma validate_invs:
  "remoteProtocolValidateAndSet r s = (b, s') \<Longrightarrow>
     control_state s' = control_state s \<and> keys_inv s' = keys_inv s
     \<and> (b \<longrightarrow> version (control_protocol s') = 1
              \<and> tx_chunk_size (control_protocol s') \<le> 1000
              \<and> rx_chunk_size (control_protocol s') \<le> 1000)
     \<and> (\<not> b \<longrightarrow> s' = s)"
  by (auto simp: remoteProtocolValidateAndSet_def PROTOCOL_def split: option.splits if_splits)

lemma state_of_simps [simp]:
  "state_of (Inr s) = s"
  "state_of (Inl x) = snd x"
  by (simp_all add: state_of_def split: prod.splits)

lemma handlers_proto_inv:
  "proto_inv s \<Longrightarrow> proto_inv (state_of (ControlHandlers E st payload s))"
proof (cases st)
  case ControlStateDisconnected
  then show "proto_inv s \<Longrightarrow> ?thesis" by simp
next
  case ControlStateAwaitingResetCompleteRemoteInitiated
  assume p: "proto_inv s"
  show ?thesis
  proof (cases "map_of payload ControlKeyResetComplete")
    case None
    with p ControlStateAwaitingResetCompleteRemoteInitiated show ?thesis
      by (auto simp: proto_inv_enter_closed)
  next
    case (Some v)
    obtain b s1 where v: "remoteProtocolValidateAndSet (unpackResetCompleteMessage v) s = (b, s1)"
      by (cases "remoteProtocolValidateAndSet (unpackResetCompleteMessage v) s")
    from validate_invs [OF v] p Some v ControlStateAwaitingResetCompleteRemoteInitiated
    show ?thesis
      by (cases b) (auto simp: proto_inv_enter_open)
  qed
next
  case ControlStateAwaitingResetCompleteLocalInitiated
  assume p: "proto_inv s"
  show ?thesis
  proof (cases "map_of payload ControlKeyResetComplete")
    case None
    with p ControlStateAwaitingResetCompleteLocalInitiated show ?thesis
      by simp
  next
    case (Some v)
    obtain b s1 where v: "remoteProtocolValidateAndSet (unpackResetCompleteMessage v) s = (b, s1)"
      by (cases "remoteProtocolValidateAndSet (unpackResetCompleteMessage v) s")
    note vi = validate_invs [OF v]
    show ?thesis
    proof (cases b)
      case True
      from sendControl_invs obtain s2 where
        s2: "controlSendResetComplete E s1 = Inr s2"
          "control_protocol s2 = control_protocol s1"
        unfolding controlSendResetComplete_def sendControlMessage_def by blast
      with vi True Some v ControlStateAwaitingResetCompleteLocalInitiated show ?thesis
        by (simp add: proto_inv_enter_open)
    next
      case False
      from sendControl_invs obtain s2 where
        s2: "controlSendUnsupportedError E s1 = Inr s2"
          "control_protocol s2 = control_protocol s1" "control_state s2 = control_state s1"
        unfolding controlSendUnsupportedError_def sendControlMessage_def by blast
      with vi False p Some v ControlStateAwaitingResetCompleteLocalInitiated show ?thesis
        by (simp add: proto_inv_def)
    qed
  qed
next
  case ControlStateSessionOpen
  assume p: "proto_inv s"
  show ?thesis
  proof (cases "map_of payload ControlKeyChunk")
    case None
    with ControlStateSessionOpen show ?thesis
      by (simp add: proto_inv_enter_closed)
  next
    case (Some v)
    show ?thesis
    proof (cases "unpackChunk v s")
      case (Inl x)
      with p Some ControlStateSessionOpen sender_step_unpackChunk(2) [of v s "fst x" "snd x"]
      show ?thesis
        by (auto intro: proto_inv_sender_step)
    next
      case (Inr y)
      obtain c s1 where y: "y = (c, s1)" by (cases y)
      have p1: "proto_inv s1"
        using p Inr y sender_step_unpackChunk(1) proto_inv_sender_step by blast
      show ?thesis
      proof (cases "handleChunkReceived E c s1")
        case (Inl x)
        with p1 sender_step_handleChunkReceived(2) [of E c s1 "fst x" "snd x"]
        have "proto_inv (snd x)"
          by (auto intro: proto_inv_sender_step)
        with Inl Inr y Some ControlStateSessionOpen show ?thesis
          by auto
      next
        case (Inr z)
        obtain b s2 where z: "z = (b, s2)" by (cases z)
        have "proto_inv s2"
          using p1 Inr z sender_step_handleChunkReceived(1) proto_inv_sender_step by blast
        with Inr z \<open>unpackChunk v s = Inr y\<close> y Some ControlStateSessionOpen show ?thesis
          by (cases b) (auto simp: proto_inv_enter_closed)
      qed
    qed
  qed
qed

lemma handlers_keys_inv:
  "keys_inv s \<Longrightarrow> keys_inv (state_of (ControlHandlers E st payload s))"
proof (cases st)
  case ControlStateDisconnected
  then show "keys_inv s \<Longrightarrow> ?thesis" by simp
next
  case ControlStateAwaitingResetCompleteRemoteInitiated
  assume p: "keys_inv s"
  show ?thesis
  proof (cases "map_of payload ControlKeyResetComplete")
    case None
    with p ControlStateAwaitingResetCompleteRemoteInitiated show ?thesis
      by (auto simp: keys_inv_enter)
  next
    case (Some v)
    obtain b s1 where v: "remoteProtocolValidateAndSet (unpackResetCompleteMessage v) s = (b, s1)"
      by (cases "remoteProtocolValidateAndSet (unpackResetCompleteMessage v) s")
    from validate_invs [OF v] p Some v ControlStateAwaitingResetCompleteRemoteInitiated
    show ?thesis
      by (cases b) (auto simp: keys_inv_enter)
  qed
next
  case ControlStateAwaitingResetCompleteLocalInitiated
  assume p: "keys_inv s"
  show ?thesis
  proof (cases "map_of payload ControlKeyResetComplete")
    case None
    with p ControlStateAwaitingResetCompleteLocalInitiated show ?thesis
      by simp
  next
    case (Some v)
    obtain b s1 where v: "remoteProtocolValidateAndSet (unpackResetCompleteMessage v) s = (b, s1)"
      by (cases "remoteProtocolValidateAndSet (unpackResetCompleteMessage v) s")
    note vi = validate_invs [OF v]
    have k1: "keys_inv s1" using vi p by simp
    show ?thesis
    proof (cases b)
      case True
      have "dict_ok [(''ControlKeyResetComplete'',
         Arr (map to_uint8
                [min_version PROTOCOL,
                 max_version PROTOCOL,
                 js_sar (max_tx_chunk_size PROTOCOL) 8,
                 max_tx_chunk_size PROTOCOL,
                 js_sar (max_rx_chunk_size PROTOCOL) 8,
                 max_rx_chunk_size PROTOCOL]))]"
        by (simp add: control_keys_def)
      with sendControl_invs k1 obtain s2 where
        s2: "controlSendResetComplete E s1 = Inr s2" "keys_inv s2"
        unfolding controlSendResetComplete_def sendControlMessage_def by blast
      with True Some v ControlStateAwaitingResetCompleteLocalInitiated show ?thesis
        by (simp add: keys_inv_enter)
    next
      case False
      have "dict_ok [(''ControlKeyUnsupportedError'', Num 0)]"
        by (simp add: control_keys_def)
      with sendControl_invs k1 obtain s2 where
        s2: "controlSendUnsupportedError E s1 = Inr s2" "keys_inv s2"
        unfolding controlSendUnsupportedError_def sendControlMessage_def by blast
      with False Some v ControlStateAwaitingResetCompleteLocalInitiated show ?thesis
        by simp
    qed
  qed
next
  case ControlStateSessionOpen
  assume p: "keys_inv s"
  show ?thesis
  proof (cases "map_of payload ControlKeyChunk")
    case None
    with p ControlStateSessionOpen show ?thesis
      by (simp add: keys_inv_enter)
  next
    case (Some v)
    show ?thesis
    proof (cases "unpackChunk v s")
      case (Inl x)
      with p Some ControlStateSessionOpen sender_step_unpackChunk(2) [of v s "fst x" "snd x"]
      show ?thesis
        by (auto intro: keys_inv_sender_step)
    next
      case (Inr y)
      obtain c s1 where y: "y = (c, s1)" by (cases y)
      have p1: "keys_inv s1"
        using p Inr y sender_step_unpackChunk(1) keys_inv_sender_step by blast
      show ?thesis
      proof (cases "handleChunkReceived E c s1")
        case (Inl x)
        with p1 sender_step_handleChunkReceived(2) [of E c s1 "fst x" "snd x"]
        have "keys_inv (snd x)"
          by (auto intro: keys_inv_sender_step)
        with Inl Inr y Some ControlStateSessionOpen show ?thesis
          by auto
      next
        case (Inr z)
        obtain b s2 where z: "z = (b, s2)" by (cases z)
        have "keys_inv s2"
          using p1 Inr z sender_step_handleChunkReceived(1) keys_inv_sender_step by blast
        with Inr z \<open>unpackChunk v s = Inr y\<close> y Some ControlStateSessionOpen show ?thesis
          by (cases b) (auto simp: keys_inv_enter)
      qed
    qed
  qed
qed

lemma sender_events:
  assumes "ev \<noteq> Ready" and "\<forall>p. ev \<noteq> AppMessage p" and "\<forall>e. ev \<noteq> ControlFailure e"
  shows "sender_step s (state_of (deliver E ev s))"
proof (cases ev)
  case ControlSuccess
  have "sender_step s (resetCurrent (s\<lparr>controlQueue := tl (controlQueue s)\<rparr>))"
    by (cases "controlQueue s") (auto simp: sender_step_def resetCurrent_def)
  with ControlSuccess show ?thesis
    by (auto simp: controlSuccess_def intro: sender_step_trans sender_step_sendNext)
next
  case ChunkSuccess
  show ?thesis
  proof (cases "js_index (objectQueue s) 0")
    case None
    with ChunkSuccess show ?thesis by (simp add: chunkSuccess_def)
  next
    case (Some h)
    let ?s1 = "s\<lparr>offsetBytes := offsetBytes s + chunkPayloadSize s\<rparr>"
    have a: "sender_step s ?s1" by (simp add: sender_step_def)
    show ?thesis
    proof (cases "offsetBytes ?s1 = int (length (data h))")
      case False
      with ChunkSuccess Some a sender_step_sendNext(2) [of ?s1 E] show ?thesis
        by (auto simp: chunkSuccess_def Let_def intro: sender_step_trans)
    next
      case True
      have b: "sender_step ?s1 (state_of (completeObject E None ?s1))"
        by (rule sender_step_completeObject)
      show ?thesis
      proof (cases "completeObject E None ?s1")
        case (Inl x)
        with ChunkSuccess Some a b True show ?thesis
          by (auto simp: chunkSuccess_def Let_def intro: sender_step_trans)
      next
        case (Inr s2)
        with ChunkSuccess Some a b True sender_step_sendNext(1) [of s2 E] show ?thesis
          by (auto simp: chunkSuccess_def Let_def intro: sender_step_trans)
      qed
    qed
  qed
next
  case (ChunkFailure e)
  then show ?thesis by (simp add: sender_step_sendNext)
next
  case RetryControl
  then show ?thesis
    by (auto simp: trySendNextControl_def sender_step_def emit_def js_index_def)
next
  case RetryChunk
  then show ?thesis by (simp add: sender_step_sendNext)
next
  case (PostMessage ob)
  have "\<And>d. sender_step s (s\<lparr>objectQueue := objectQueue s @ [d]\<rparr>)"
    by (simp add: sender_step_def)
  with PostMessage show ?thesis
    by (auto simp: postMessage_def sendObject_def split: sum.splits
        intro: sender_step_trans sender_step_sendNext)
next
  case (AddEventListener n h)
  then show ?thesis
    by (auto simp: addEventListener_def on_def Let_def callHandler_def emit_def sender_step_def)
next
  case (RemoveEventListener n h)
  then show ?thesis
    by (auto simp: removeEventListener_def off_def emit_def sender_step_def split: option.splits)
qed (use assms in auto)

lemma controlFailure_invs:
  "(proto_inv s \<longrightarrow> proto_inv (state_of (controlFailure E e s)))
   \<and> (keys_inv s \<longrightarrow> keys_inv (state_of (controlFailure E e s)))"
proof (cases "failureCount s + 1 \<le> 3")
  case True
  then have "sender_step s (state_of (controlFailure E e s))"
    by (simp add: controlFailure_def Let_def sender_step_def emit_def)
  then show ?thesis
    using proto_inv_sender_step keys_inv_sender_step by blast
next
  case False
  let ?s2 = "resetCurrent (s\<lparr>failureCount := failureCount s + 1,
                              controlQueue := tl (controlQueue s)\<rparr>)"
  have a: "sender_step s ?s2"
    by (cases "controlQueue s") (auto simp: sender_step_def resetCurrent_def)
  from control_enter_invs [of E ControlStateDisconnected ?s2] obtain s3 where
    s3: "control_enter E ControlStateDisconnected ?s2 = Inr s3"
      "control_state s3 = ControlStateAwaitingResetCompleteRemoteInitiated"
      "control_protocol s3 = zero_protocol"
      "keys_inv ?s2 \<longrightarrow> keys_inv s3"
    by auto
  have b: "controlFailure E e s = sendNext E s3"
    using False s3(1) by (simp add: controlFailure_def Let_def)
  have "proto_inv s3"
    using s3 by (simp add: proto_inv_def)
  moreover have "keys_inv s \<longrightarrow> keys_inv s3"
    using s3(4) a keys_inv_sender_step by blast
  ultimately show ?thesis
    using b sender_step_sendNext(1) [of s3 E] proto_inv_sender_step keys_inv_sender_step
    by auto
qed

lemma deliver_invs:
  "(proto_inv s \<longrightarrow> proto_inv (state_of (deliver E ev s)))
   \<and> (keys_inv s \<longrightarrow> keys_inv (state_of (deliver E ev s)))"
proof (cases "ev = Ready \<or> (\<exists>p. ev = AppMessage p) \<or> (\<exists>e. ev = ControlFailure e)")
  case False
  then have "sender_step s (state_of (deliver E ev s))"
    by (intro sender_events) auto
  then show ?thesis
    using proto_inv_sender_step keys_inv_sender_step by blast
next
  case True
  then consider "ev = Ready" | p where "ev = AppMessage p" | e where "ev = ControlFailure e"
    by blast
  then show ?thesis
  proof cases
    case 1
    then show ?thesis
      by (simp add: proto_inv_enter_closed keys_inv_enter)
  next
    case 2
    then show ?thesis
      by (simp add: control_handle_def handlers_proto_inv handlers_keys_inv)
  next
    case 3
    then show ?thesis
      using controlFailure_invs [of s E e] by simp
  qed
qed

lemma step_invs:
  "proto_inv s \<Longrightarrow> proto_inv (step E s ev)"
  "keys_inv s \<Longrightarrow> keys_inv (step E s ev)"
  using deliver_invs [of s E ev]
  by (auto simp: step_def split: sum.splits)

lemma foldl_step_invs:
  "proto_inv s \<Longrightarrow> proto_inv (foldl (step E) s evs)"
  "keys_inv s \<Longrightarrow> keys_inv (foldl (step E) s evs)"
  by (induction evs arbitrary: s) (simp_all add: step_invs)

lemma run_invs: "proto_inv (run E evs)" "keys_inv (run E evs)"
  unfolding run_def
  by (rule foldl_step_invs; simp add: proto_inv_def keys_inv_def initial_state_def
      handed_dicts_def)+

lemma control_handle_keys:
  assumes "\<forall>k \<in> control_keys. map_of p1 k = map_of p2 k"
  shows "control_handle E p1 s = control_handle E p2 s"
proof -
  from assms have eqs:
    "map_of p1 ControlKeyResetRequest = map_of p2 ControlKeyResetRequest"
    "map_of p1 ControlKeyResetComplete = map_of p2 ControlKeyResetComplete"
    "map_of p1 ControlKeyChunk = map_of p2 ControlKeyChunk"
    "map_of p1 ControlKeyUnsupportedError = map_of p2 ControlKeyUnsupportedError"
    by (simp_all add: control_keys_def ControlKeyResetRequest_def ControlKeyResetComplete_def
        ControlKeyChunk_def ControlKeyUnsupportedError_def)
  show ?thesis
    unfolding control_handle_def
    by (cases "control_state s") (simp_all only: ControlHandlers.simps js_in_def eqs)
qed

lemma to_int32_small: "0 \<le> x \<Longrightarrow> x < 2147483648 \<Longrightarrow> to_int32 x = x"
  by (simp add: to_int32_def)

lemma js_shl8_byte: "0 \<le> a \<Longrightarrow> a < 256 \<Longrightarrow> js_shl a 8 = a * 256"
  by (simp add: js_shl_def to_int32_small)

lemma advertised_value:
  assumes "0 \<le> a" "a < 256" "0 \<le> b" "b < 256"
  shows "js_or (js_shl a 8) b = a * 256 + b"
proof -
  have pa: "a * 256 = push_bit 8 a"
    by (simp add: push_bit_eq_mult)
  have tb: "b = take_bit 8 b"
    using assms by (simp add: take_bit_int_eq_self)
  have "push_bit 8 a + take_bit 8 b = or (push_bit 8 a) (take_bit 8 b)"
    by (rule disjunctive_add) (auto simp: bit_push_bit_iff bit_take_bit_iff)
  then have "or (a * 256) b = a * 256 + b"
    using pa tb by simp
  then show ?thesis
    using assms by (simp add: js_shl8_byte js_or_def to_int32_small)
qed

lemma byte_index:
  "byte_value v \<Longrightarrow> 0 \<le> bits_of (kv_index v i) \<and> bits_of (kv_index v i) < 256"
  by (cases v) (auto simp: kv_index_def bits_of_def js_index_def list_all_length)

lemma advertised_nonneg:
  assumes "byte_value v"
  shows "0 \<le> remote_max_rx_chunk_size (unpackResetCompleteMessage v)"
    and "0 \<le> remote_max_tx_chunk_size (unpackResetCompleteMessage v)"
  using byte_index [OF assms, of 2] byte_index [OF assms, of 3]
    byte_index [OF assms, of 4] byte_index [OF assms, of 5]
  by (simp_all add: unpackResetCompleteMessage_def advertised_value)

lemma unpack_six_bytes:
  assumes "list_all (\<lambda>x. 0 \<le> x \<and> x < 256) [mn, mx, txh, txl, rxh, rxl]"
  shows "unpackResetCompleteMessage (Arr [mn, mx, txh, txl, rxh, rxl])
         = \<lparr>remote_min_version = Some mn, remote_max_version = Some mx,
            remote_max_tx_chunk_size = txh * 256 + txl,
            remote_max_rx_chunk_size = rxh * 256 + rxl\<rparr>"
  using assms
  by (simp add: unpackResetCompleteMessage_def kv_index_def js_index_def bits_of_def
      advertised_value)

lemma byte_payload_lookup: "byte_payload p \<Longrightarrow> map_of p k = Some v \<Longrightarrow> byte_value v"
proof -
  assume a: "byte_payload p" and b: "map_of p k = Some v"
  from b have "(k, v) \<in> set p" by (rule map_of_SomeD)
  with a have "byte_value (snd (k, v))"
    unfolding byte_payload_def list_all_iff by (rule bspec)
  then show "byte_value v" by simp
qed

lemma validate_true:
  assumes "remoteProtocolValidateAndSet r s = (True, s1)"
  shows "\<exists>rmin rmax. remote_min_version r = Some rmin \<and> remote_max_version r = Some rmax
           \<and> rmin \<le> 1 \<and> 1 \<le> rmax
           \<and> control_state s1 = control_state s
           \<and> control_protocol s1 =
               \<lparr>version = 1,
                tx_chunk_size = min 1000 (remote_max_rx_chunk_size r),
                rx_chunk_size = min 1000 (remote_max_tx_chunk_size r)\<rparr>"
  using assms
  by (auto simp: remoteProtocolValidateAndSet_def PROTOCOL_def min.commute
      split: option.splits if_splits)

lemma enter_ctl:
  "control_state (state_of (control_enter E to_state s))
     = (if to_state = ControlStateDisconnected
        then ControlStateAwaitingResetCompleteRemoteInitiated else to_state)"
  "control_protocol (state_of (control_enter E to_state s))
     = (if to_state = ControlStateSessionOpen then control_protocol s else zero_protocol)"
  using control_enter_invs [of E to_state s] by auto

lemma handlers_open_cases:
  assumes "control_state (state_of (ControlHandlers E (control_state s) payload s))
             = ControlStateSessionOpen"
  shows "(control_state s = ControlStateSessionOpen
          \<and> control_protocol (state_of (ControlHandlers E (control_state s) payload s))
              = control_protocol s)
       \<or> (control_state s \<noteq> ControlStateSessionOpen
          \<and> opened_by (AppMessage payload)
               (control_protocol (state_of (ControlHandlers E (control_state s) payload s))))"
proof (cases "control_state s")
  case ControlStateDisconnected
  with assms show ?thesis by simp
next
  case ri: ControlStateAwaitingResetCompleteRemoteInitiated
  show ?thesis
  proof (cases "map_of payload ControlKeyResetComplete")
    case None
    with assms ri show ?thesis
      by (auto simp: enter_ctl split: if_splits)
  next
    case (Some v)
    obtain b s1 where v: "remoteProtocolValidateAndSet (unpackResetCompleteMessage v) s = (b, s1)"
      by (cases "remoteProtocolValidateAndSet (unpackResetCompleteMessage v) s")
    show ?thesis
    proof (cases b)
      case False
      with validate_invs [OF v] assms ri Some v show ?thesis by simp
    next
      case True
      with validate_true [of "unpackResetCompleteMessage v" s s1] v ri Some show ?thesis
        by (auto simp: enter_ctl opened_by_def)
    qed
  qed
next
  case li: ControlStateAwaitingResetCompleteLocalInitiated
  show ?thesis
  proof (cases "map_of payload ControlKeyResetComplete")
    case None
    with assms li show ?thesis by simp
  next
    case (Some v)
    obtain b s1 where v: "remoteProtocolValidateAndSet (unpackResetCompleteMessage v) s = (b, s1)"
      by (cases "remoteProtocolValidateAndSet (unpackResetCompleteMessage v) s")
    show ?thesis
    proof (cases b)
      case False
      from sendControl_invs obtain s2 where
        s2: "controlSendUnsupportedError E s1 = Inr s2" "control_state s2 = control_state s1"
        unfolding controlSendUnsupportedError_def sendControlMessage_def by blast
      with validate_invs [OF v] False assms li Some v show ?thesis by simp
    next
      case True
      from sendControl_invs obtain s2 where
        s2: "controlSendResetComplete E s1 = Inr s2"
          "control_protocol s2 = control_protocol s1"
        unfolding controlSendResetComplete_def sendControlMessage_def by blast
      with validate_true [of "unpackResetCompleteMessage v" s s1] v True li Some show ?thesis
        by (auto simp: enter_ctl opened_by_def)
    qed
  qed
next
  case op: ControlStateSessionOpen
  show ?thesis
  proof (cases "map_of payload ControlKeyChunk")
    case None
    with assms op show ?thesis
      by (auto simp: enter_ctl split: if_splits)
  next
    case (Some v)
    show ?thesis
    proof (cases "unpackChunk v s")
      case (Inl x)
      with op Some sender_step_unpackChunk(2) [of v s "fst x" "snd x"] show ?thesis
        by (auto simp: sender_step_def)
    next
      case (Inr y)
      obtain c s1 where y: "y = (c, s1)" by (cases y)
      have f1: "sender_step s s1"
        using Inr y sender_step_unpackChunk(1) by blast
      show ?thesis
      proof (cases "handleChunkReceived E c s1")
        case (Inl x)
        with sender_step_handleChunkReceived(2) [of E c s1 "fst x" "snd x"]
        have "sender_step s1 (snd x)" by simp
        with f1 Inl Inr y Some op show ?thesis
          by (auto simp: sender_step_def)
      next
        case (Inr z)
        obtain b s2 where z: "z = (b, s2)" by (cases z)
        have f2: "sender_step s1 s2"
          using Inr z sender_step_handleChunkReceived(1) by blast
        show ?thesis
        proof (cases b)
          case True
          with f1 f2 Inr z \<open>unpackChunk v s = Inr y\<close> y Some op show ?thesis
            by (auto simp: sender_step_def)
        next
          case False
          with assms Inr z \<open>unpackChunk v s = Inr y\<close> y Some op show ?thesis
            by (auto simp: enter_ctl)
        qed
      qed
    qed
  qed
qed

lemma controlFailure_ctl:
  "control_state (state_of (controlFailure E e s)) = ControlStateSessionOpen
     \<Longrightarrow> control_state s = ControlStateSessionOpen
         \<and> control_protocol (state_of (controlFailure E e s)) = control_protocol s"
proof (cases "failureCount s + 1 \<le> 3")
  case True
  then show "control_state (state_of (controlFailure E e s)) = ControlStateSessionOpen
     \<Longrightarrow> ?thesis"
    by (simp add: controlFailure_def Let_def emit_def)
next
  case False
  let ?s2 = "resetCurrent (s\<lparr>failureCount := failureCount s + 1,
                              controlQueue := tl (controlQueue s)\<rparr>)"
  from control_enter_invs [of E ControlStateDisconnected ?s2] obtain s3 where
    s3: "control_enter E ControlStateDisconnected ?s2 = Inr s3"
      "control_state s3 = ControlStateAwaitingResetCompleteRemoteInitiated"
    by auto
  have b: "controlFailure E e s = sendNext E s3"
    using False s3(1) by (simp add: controlFailure_def Let_def)
  assume "control_state (state_of (controlFailure E e s)) = ControlStateSessionOpen"
  with b s3(2) sender_step_sendNext(1) [of s3 E] show ?thesis
    by (simp add: sender_step_def)
qed

lemma step_ctl:
  "control_state (step E s ev) = control_state (state_of (deliver E ev s))"
  "control_protocol (step E s ev) = control_protocol (state_of (deliver E ev s))"
  by (auto simp: step_def emit_def split: sum.splits)

lemma step_open_cases:
  assumes "control_state (step E s ev) = ControlStateSessionOpen"
  shows "(control_state s = ControlStateSessionOpen
          \<and> control_protocol (step E s ev) = control_protocol s)
       \<or> (control_state s \<noteq> ControlStateSessionOpen
          \<and> opened_by ev (control_protocol (step E s ev)))"
proof (cases "ev = Ready \<or> (\<exists>p. ev = AppMessage p) \<or> (\<exists>e. ev = ControlFailure e)")
  case False
  then have "sender_step s (state_of (deliver E ev s))"
    by (intro sender_events) auto
  with assms show ?thesis
    by (simp add: step_ctl sender_step_def)
next
  case True
  then consider "ev = Ready" | p where "ev = AppMessage p" | e where "ev = ControlFailure e"
    by blast
  then show ?thesis
  proof cases
    case 1
    with assms show ?thesis
      by (simp add: step_ctl enter_ctl)
  next
    case 2
    with assms handlers_open_cases [of E s p] show ?thesis
      by (simp add: step_ctl control_handle_def)
  next
    case 3
    with assms controlFailure_ctl [of E e s] show ?thesis
      by (simp add: step_ctl)
  qed
qed

lemma nonneg_step:
  assumes "nonneg_inv s" and "byte_event ev"
  shows "nonneg_inv (step E s ev)"
proof (cases "control_state (step E s ev) = ControlStateSessionOpen")
  case False
  then show ?thesis by (simp add: nonneg_inv_def)
next
  case True
  from step_open_cases [OF True] show ?thesis
  proof
    assume "control_state s = ControlStateSessionOpen
              \<and> control_protocol (step E s ev) = control_protocol s"
    with assms(1) show ?thesis by (simp add: nonneg_inv_def)
  next
    assume a: "control_state s \<noteq> ControlStateSessionOpen
              \<and> opened_by ev (control_protocol (step E s ev))"
    then obtain payload v where
      ev: "ev = AppMessage payload" "map_of payload ControlKeyResetComplete = Some v"
      and p: "control_protocol (step E s ev) =
               \<lparr>version = 1,
                tx_chunk_size = min 1000 (remote_max_rx_chunk_size (unpackResetCompleteMessage v)),
                rx_chunk_size = min 1000 (remote_max_tx_chunk_size (unpackResetCompleteMessage v))\<rparr>"
      unfolding opened_by_def by blast
    from ev assms(2) have "byte_value v"
      by (auto intro: byte_payload_lookup)
    from advertised_nonneg [OF this] p show ?thesis
      by (simp add: nonneg_inv_def)
  qed
qed

lemma nonneg_foldl:
  "nonneg_inv s \<Longrightarrow> list_all byte_event evs \<Longrightarrow> nonneg_inv (foldl (step E) s evs)"
  by (induction evs arbitrary: s) (simp_all add: nonneg_step)

lemma nonneg_run: "list_all byte_event evs \<Longrightarrow> nonneg_inv (run E evs)"
  unfolding run_def by (rule nonneg_foldl) (simp_all add: nonneg_inv_def initial_state_def)

lemma run_snoc: "run E (evs @ [ev]) = step E (run E evs) ev"
  by (simp add: run_def)

subsection \<open>Claims\<close>

text \<open>
  C3 (as the code has it). In \<open>SessionOpen\<close> the handler tests for \<open>ControlKeyChunk\<close>, then for
  \<open>ControlKeyResetRequest\<close>, and treats every other payload alike. So a payload whose
  recognized key is \<open>ControlKeyResetComplete\<close> (and that has neither of the other two keys)
  makes Control enter \<open>AwaitingResetCompleteLocalInitiated\<close>: one ResetRequest is appended
  to the control queue (and handed to the lower transport at once when nothing is in
  flight), and \<open>postmessagedisconnected\<close> is dispatched.
\<close>

theorem C3_reset_complete_in_open_session_renegotiates:
  assumes "control_state s = ControlStateSessionOpen"
    and "map_of payload ControlKeyResetComplete = Some v"
    and "\<not> js_in ControlKeyChunk payload"
    and "\<not> js_in ControlKeyResetRequest payload"
  shows "\<exists>s'. control_handle E payload s = Inr s'
      \<and> control_state s' = ControlStateAwaitingResetCompleteLocalInitiated
      \<and> controlQueue s' = controlQueue s @ [[(''ControlKeyResetRequest'', Num 0)]]
      \<and> out s' = out s
           @ (if currentMessageType s = None
              then [SendAppMessage
                      (js_index (controlQueue s @ [[(''ControlKeyResetRequest'', Num 0)]]) 0)
                      Control]
              else [])
           @ [CallHandlers ''postmessagedisconnected'' None
                (registered s ''postmessagedisconnected'')]"
proof -
  have "control_handle E payload s
      = control_enter E ControlStateAwaitingResetCompleteLocalInitiated s"
    using assms by (simp add: control_handle_def js_in_def)
  then show ?thesis
    using enter_local_from_open [OF assms(1), of E] by auto
qed

theorem C3_reset_complete_in_open_session_renegotiates_witness:
  "control_state open_session = ControlStateSessionOpen
   \<and> map_of [(''ControlKeyResetComplete'', Arr [1, 1, 3, 232, 3, 232])] ControlKeyResetComplete
       = Some (Arr [1, 1, 3, 232, 3, 232])
   \<and> \<not> js_in ControlKeyChunk [(''ControlKeyResetComplete'', Arr [1, 1, 3, 232, 3, 232])]
   \<and> \<not> js_in ControlKeyResetRequest [(''ControlKeyResetComplete'', Arr [1, 1, 3, 232, 3, 232])]
   \<and> (\<exists>s'. control_handle example_env
               [(''ControlKeyResetComplete'', Arr [1, 1, 3, 232, 3, 232])] open_session = Inr s'
          \<and> control_state s' = ControlStateAwaitingResetCompleteLocalInitiated
          \<and> controlQueue s' = [[(''ControlKeyResetRequest'', Num 0)]])"
proof -
  have h1: "control_state open_session = ControlStateSessionOpen"
    by (rule open_session_open)
  have h2: "map_of [(''ControlKeyResetComplete'', Arr [1, 1, 3, 232, 3, 232])]
              ControlKeyResetComplete = Some (Arr [1, 1, 3, 232, 3, 232])"
    by (simp add: ControlKeyResetComplete_def)
  have h3: "\<not> js_in ControlKeyChunk [(''ControlKeyResetComplete'', Arr [1, 1, 3, 232, 3, 232])]"
    by (simp add: js_in_def ControlKeyChunk_def)
  have h4: "\<not> js_in ControlKeyResetRequest
               [(''ControlKeyResetComplete'', Arr [1, 1, 3, 232, 3, 232])]"
    by (simp add: js_in_def ControlKeyResetRequest_def)
  from C3_reset_complete_in_open_session_renegotiates [OF h1 h2 h3 h4, of example_env]
  have "\<exists>s'. control_handle example_env
               [(''ControlKeyResetComplete'', Arr [1, 1, 3, 232, 3, 232])] open_session = Inr s'
          \<and> control_state s' = ControlStateAwaitingResetCompleteLocalInitiated
          \<and> controlQueue s' = [[(''ControlKeyResetRequest'', Num 0)]]"
    by (auto simp: open_session_fields)
  with h1 h2 h3 h4 show ?thesis by blast
qed

text \<open>
  C3 as stated fails: in the open session a payload \<open>{ControlKeyResetComplete: \<dots>}\<close> does
  not leave Control in \<open>SessionOpen\<close>, a control message is queued, and
  \<open>postmessagedisconnected\<close> is dispatched.
\<close>

theorem C3_counterexample:
  "control_state open_session = ControlStateSessionOpen
   \<and> control_state (step example_env open_session
        (AppMessage [(''ControlKeyResetComplete'', Arr [1, 1, 3, 232, 3, 232])]))
       \<noteq> ControlStateSessionOpen
   \<and> controlQueue (step example_env open_session
        (AppMessage [(''ControlKeyResetComplete'', Arr [1, 1, 3, 232, 3, 232])]))
       \<noteq> controlQueue open_session
   \<and> CallHandlers ''postmessagedisconnected'' None []
       \<in> set (out (step example_env open_session
        (AppMessage [(''ControlKeyResetComplete'', Arr [1, 1, 3, 232, 3, 232])])))"
  by code_simp

text \<open>
  C10. A \<open>ControlKeyChunk\<close> value of at most 4 bytes, received in \<open>SessionOpen\<close>:
  \<open>_unpackChunk\<close> returns \<open>undefined\<close>, the chunk handler returns \<open>false\<close>, and Control enters
  \<open>AwaitingResetCompleteLocalInitiated\<close>, which appends one ResetRequest to the control
  queue and dispatches \<open>postmessagedisconnected\<close>.
\<close>

theorem C10_short_chunk_tears_session_down:
  assumes "control_state s = ControlStateSessionOpen"
    and "map_of payload ControlKeyChunk = Some (Arr bs)"
    and "length bs \<le> 4"
  shows "\<exists>s1 s'. unpackChunk (Arr bs) s = Inr (None, s1)
      \<and> handleChunkReceived E None s1 = Inr (False, s1)
      \<and> control_handle E payload s = Inr s'
      \<and> control_state s' = ControlStateAwaitingResetCompleteLocalInitiated
      \<and> controlQueue s' = controlQueue s @ [[(''ControlKeyResetRequest'', Num 0)]]
      \<and> out s' = out s @ [ConsoleError LogChunkTooShort]
           @ (if currentMessageType s = None
              then [SendAppMessage
                      (js_index (controlQueue s @ [[(''ControlKeyResetRequest'', Num 0)]]) 0)
                      Control]
              else [])
           @ [CallHandlers ''postmessagedisconnected'' None
                (registered s ''postmessagedisconnected'')]"
proof -
  let ?s1 = "emit (ConsoleError LogChunkTooShort) s"
  have u: "unpackChunk (Arr bs) s = Inr (None, ?s1)"
    using assms(3) by (simp add: unpackChunk_def)
  have h: "handleChunkReceived E None ?s1 = Inr (False, ?s1)"
    by (simp add: handleChunkReceived_def)
  have o: "control_state ?s1 = ControlStateSessionOpen"
    using assms(1) by (simp add: emit_def)
  from enter_local_from_open [OF o, of E] obtain s' where
    e: "control_enter E ControlStateAwaitingResetCompleteLocalInitiated ?s1 = Inr s'"
    and r: "control_state s' = ControlStateAwaitingResetCompleteLocalInitiated"
      "controlQueue s' = controlQueue ?s1 @ [[(''ControlKeyResetRequest'', Num 0)]]"
      "out s' = out ?s1
           @ (if currentMessageType ?s1 = None
              then [SendAppMessage
                      (js_index (controlQueue ?s1 @ [[(''ControlKeyResetRequest'', Num 0)]]) 0)
                      Control]
              else [])
           @ [CallHandlers ''postmessagedisconnected'' None
                (registered ?s1 ''postmessagedisconnected'')]"
    by blast
  have c: "control_handle E payload s = Inr s'"
    using assms(1,2) u h e by (simp add: control_handle_def)
  show ?thesis
    using u h c r by (simp add: emit_def registered_def)
qed

theorem C10_short_chunk_tears_session_down_witness:
  "control_state open_session = ControlStateSessionOpen
   \<and> map_of [(''ControlKeyChunk'', Arr [4, 0, 0, 128])] ControlKeyChunk
       = Some (Arr [4, 0, 0, 128])
   \<and> length [4, 0, 0, 128 :: int] \<le> 4
   \<and> (\<exists>s'. control_handle example_env [(''ControlKeyChunk'', Arr [4, 0, 0, 128])] open_session
              = Inr s'
          \<and> control_state s' = ControlStateAwaitingResetCompleteLocalInitiated
          \<and> controlQueue s' = [[(''ControlKeyResetRequest'', Num 0)]])"
proof -
  have h1: "control_state open_session = ControlStateSessionOpen"
    by (rule open_session_open)
  have h2: "map_of [(''ControlKeyChunk'', Arr [4, 0, 0, 128])] ControlKeyChunk
              = Some (Arr [4, 0, 0, 128])"
    by (simp add: ControlKeyChunk_def)
  have h3: "length [4, 0, 0, 128 :: int] \<le> 4"
    by simp
  from C10_short_chunk_tears_session_down [OF h1 h2 h3, of example_env]
  have "\<exists>s'. control_handle example_env [(''ControlKeyChunk'', Arr [4, 0, 0, 128])] open_session
              = Inr s'
          \<and> control_state s' = ControlStateAwaitingResetCompleteLocalInitiated
          \<and> controlQueue s' = [[(''ControlKeyResetRequest'', Num 0)]]"
    by (auto simp: open_session_fields)
  with h1 h2 h3 show ?thesis by blast
qed

text \<open>
  C4 (the code at the failing input). After \<open>ready\<close> the ResetRequest is in flight; its send
  fails four times. The fourth failure pops the message, clears the in-flight state and calls
  \<open>_control.enter(ControlStateDisconnected)\<close>, whose transition resets the protocol and then
  stores \<open>ControlStateAwaitingResetCompleteRemoteInitiated\<close> in \<open>_control.state\<close>: the state
  afterwards is not \<open>ControlStateDisconnected\<close>.
\<close>

theorem C4_fourth_control_failure_leaves_remote_initiated:
  "failureCount (run example_env
      [Ready, ControlFailure ''nack'', RetryControl, ControlFailure ''nack'', RetryControl,
       ControlFailure ''nack'', RetryControl]) = 3
   \<and> control_state (run example_env
      [Ready, ControlFailure ''nack'', RetryControl, ControlFailure ''nack'', RetryControl,
       ControlFailure ''nack'', RetryControl, ControlFailure ''nack''])
       = ControlStateAwaitingResetCompleteRemoteInitiated
   \<and> control_state (run example_env
      [Ready, ControlFailure ''nack'', RetryControl, ControlFailure ''nack'', RetryControl,
       ControlFailure ''nack'', RetryControl, ControlFailure ''nack''])
       \<noteq> ControlStateDisconnected
   \<and> controlQueue (run example_env
      [Ready, ControlFailure ''nack'', RetryControl, ControlFailure ''nack'', RetryControl,
       ControlFailure ''nack'', RetryControl, ControlFailure ''nack'']) = []
   \<and> currentMessageType (run example_env
      [Ready, ControlFailure ''nack'', RetryControl, ControlFailure ''nack'', RetryControl,
       ControlFailure ''nack'', RetryControl, ControlFailure ''nack'']) = None
   \<and> control_protocol (run example_env
      [Ready, ControlFailure ''nack'', RetryControl, ControlFailure ''nack'', RetryControl,
       ControlFailure ''nack'', RetryControl, ControlFailure ''nack'']) = zero_protocol"
  by code_simp

text \<open>
  C5 (as the code has it). When the send of a chunk fails with \<open>failureCount\<close> at 3, the
  head of the object queue is popped and the in-flight state is cleared; then, in the same
  call, the listeners of \<open>postmessageerror\<close> are invoked with \<open>JSON.parse\<close> of the object's
  JSON string as data, the reason goes to \<open>console.error\<close>, and the send loop resumes.
\<close>

theorem C5_fourth_chunk_failure_drops_object:
  assumes "failureCount s = 3"
    and "objectQueue s = ob # rest"
    and "JSON_parse E (json ob) = Some v"
  shows "\<exists>s'. chunkFailure E e s = sendNext E s'
      \<and> objectQueue s' = rest
      \<and> currentMessageType s' = None \<and> failureCount s' = 0
      \<and> offsetBytes s' = 0 \<and> chunkPayloadSize s' = 0
      \<and> out s' = out s
           @ [ConsoleError (LogChunkFailed False e),
              CallHandlers ''postmessageerror'' (msg_data v) (registered s ''postmessageerror''),
              ConsoleError (LogPostMessageFailed ''Too many failed transfer attempts'')]"
  using assms
  by (auto simp: chunkFailure.simps Let_def completeObject_def js_index_def
      scheduleAsyncPostMessageError_def callHandlersForEvent_def emit_def resetCurrent_def
      registered_def split: option.splits)

theorem C5_fourth_chunk_failure_drops_object_witness:
  "failureCount failing_object_session = 3
   \<and> objectQueue failing_object_session = \<lparr>obj = JNum 1, data = [49, 0], json = [49]\<rparr> # []
   \<and> JSON_parse example_env (json \<lparr>obj = JNum 1, data = [49, 0], json = [49]\<rparr>)
       = Some (JNum 1)
   \<and> (\<exists>s'. chunkFailure example_env ''nack'' failing_object_session = sendNext example_env s'
          \<and> objectQueue s' = []
          \<and> currentMessageType s' = None)"
proof -
  have h1: "failureCount failing_object_session = 3"
    by code_simp
  have h2: "objectQueue failing_object_session
              = \<lparr>obj = JNum 1, data = [49, 0], json = [49]\<rparr> # []"
    by code_simp
  have h3: "JSON_parse example_env (json \<lparr>obj = JNum 1, data = [49, 0], json = [49]\<rparr>)
              = Some (JNum 1)"
    by (simp add: example_env_def)
  from C5_fourth_chunk_failure_drops_object [OF h1 h2 h3, of "''nack''"]
  have "\<exists>s'. chunkFailure example_env ''nack'' failing_object_session = sendNext example_env s'
          \<and> objectQueue s' = []
          \<and> currentMessageType s' = None"
    by blast
  with h1 h2 h3 show ?thesis by blast
qed

text \<open>
  C5 as stated fails: the event dispatched for the dropped object \<open>1\<close> is
  \<open>postmessageerror\<close> with the number 1 as data, not the JSON string \<open>"1"\<close>; the reason is
  not part of the event.
\<close>

theorem C5_counterexample:
  "failureCount failing_object_session = 3
   \<and> map json (objectQueue failing_object_session) = [[49]]
   \<and> drop (length (out failing_object_session))
        (out (step example_env failing_object_session (ChunkFailure ''nack'')))
       = [ConsoleError (LogChunkFailed False ''nack''),
          CallHandlers ''postmessageerror'' (Some (JNum 1)) [HFunction 1],
          ConsoleError (LogPostMessageFailed ''Too many failed transfer attempts'')]
   \<and> CallHandlers ''postmessageerror'' (Some (JStr [49])) [HFunction 1]
       \<notin> set (out (step example_env failing_object_session (ChunkFailure ''nack'')))"
  by code_simp




text \<open>
  C7 (as the code has it). The head object has been sent in part (any offset) and one control
  message waits in the control queue. \<open>_trySendNextChunk\<close> then clears the in-flight state
  and \<open>_sendNext\<close> hands the control message to the lower transport; the object queue is
  untouched. When that send succeeds the object is selected again with \<open>_offsetBytes = 0\<close>.
  If Control is in \<open>SessionOpen\<close> its first chunk is sent again: the \<open>is_first\<close> bit is set,
  the header carries the total length, and the payload is taken from offset 0. If Control is
  not in \<open>SessionOpen\<close> nothing is sent: the attempt is logged as a failed send of the chunk
  and retried after a second.
\<close>

theorem C7_preempted_object_restarts_from_offset_zero:
  assumes "controlQueue s = [c]"
    and "objectQueue s = ob # rest"
  shows "\<exists>s1 s2. trySendNextChunk E s = Inr s1
      \<and> objectQueue s1 = ob # rest
      \<and> currentMessageType s1 = Some Control
      \<and> failureCount s1 = 0 \<and> offsetBytes s1 = 0 \<and> chunkPayloadSize s1 = 0
      \<and> out s1 = out s @ [SendAppMessage (Some c) Control]
      \<and> controlSuccess E s1 = Inr s2
      \<and> objectQueue s2 = ob # rest
      \<and> controlQueue s2 = []
      \<and> currentMessageType s2 = Some Object
      \<and> offsetBytes s2 = 0
      \<and> out s2 = out s1
           @ (if control_state s = ControlStateSessionOpen
              then [SendAppMessage
                      (Some [(''ControlKeyChunk'',
                              Arr ([js_and (int (length (data ob))) 255,
                                    js_and (js_sar (int (length (data ob))) 8) 255,
                                    js_and (js_sar (int (length (data ob))) 16) 255,
                                    js_or (js_and (js_sar (int (length (data ob))) 24)
                                                  (js_not (js_shl 1 7)))
                                          (js_shl 1 7)]
                                   @ js_slice (data ob) 0
                                       (min (tx_chunk_size (control_protocol s))
                                            (int (length (data ob))))))])
                      Object]
              else [ConsoleError (LogChunkFailed True session_not_open_hint),
                    SetTimeout Object 1000])"
proof -
  let ?s1 = "emit (SendAppMessage (Some c) Control)
               ((resetCurrent s)\<lparr>currentMessageType := Some Control\<rparr>)"
  let ?s2 = "(resetCurrent (?s1\<lparr>controlQueue := []\<rparr>))\<lparr>currentMessageType := Some Object\<rparr>"
  have a: "trySendNextChunk E s = Inr ?s1"
    using assms
    by (simp add: trySendNextChunk.simps [of E s] sendNext.simps getNextMessageType_def
        resetCurrent_def trySendNextControl_def emit_def js_index_def)
  have b: "controlSuccess E ?s1 = trySendNextChunk E ?s2"
    using assms
    by (simp add: controlSuccess_def sendNext.simps getNextMessageType_def resetCurrent_def
        emit_def)
  have n: "getNextMessageType ?s2 = Some Object"
    using assms by (simp add: getNextMessageType_def resetCurrent_def emit_def)
  show ?thesis
  proof (cases "control_state s = ControlStateSessionOpen")
    case True
    then have "isSessionOpen ?s2"
      by (simp add: isSessionOpen_def resetCurrent_def emit_def)
    with n assms True a b show ?thesis
      by (simp add: trySendNextChunk.simps [of E ?s2] Let_def)
        (simp add: resetCurrent_def emit_def)
  next
    case False
    then have "\<not> isSessionOpen ?s2"
      by (simp add: isSessionOpen_def resetCurrent_def emit_def)
    with n assms False a b show ?thesis
      by (simp add: trySendNextChunk.simps [of E ?s2] chunkFailure.simps Let_def)
        (simp add: resetCurrent_def emit_def)
  qed
qed

theorem C7_preempted_object_restarts_from_offset_zero_witness:
  "controlQueue preempted_session = [[(''ControlKeyResetComplete'', Arr [1, 1, 3, 232, 3, 232])]]
   \<and> objectQueue preempted_session = \<lparr>obj = JNum 1, data = [49, 0], json = [49]\<rparr> # []
   \<and> control_state preempted_session = ControlStateSessionOpen
   \<and> offsetBytes preempted_session = 1
   \<and> (\<exists>s1 s2. trySendNextChunk example_env preempted_session = Inr s1
          \<and> objectQueue s1 = [\<lparr>obj = JNum 1, data = [49, 0], json = [49]\<rparr>]
          \<and> offsetBytes s1 = 0
          \<and> controlSuccess example_env s1 = Inr s2
          \<and> offsetBytes s2 = 0
          \<and> out s2 = out s1 @ [SendAppMessage (Some [(''ControlKeyChunk'', Arr [2, 0, 0, 128, 49])])
                                  Object])"
proof -
  have h1: "controlQueue preempted_session
              = [[(''ControlKeyResetComplete'', Arr [1, 1, 3, 232, 3, 232])]]"
    by code_simp
  have h2: "objectQueue preempted_session
              = \<lparr>obj = JNum 1, data = [49, 0], json = [49]\<rparr> # []"
    by code_simp
  have h3: "control_state preempted_session = ControlStateSessionOpen"
    by code_simp
  have h4: "offsetBytes preempted_session = 1"
    by code_simp
  have p: "control_protocol preempted_session
             = \<lparr>version = 1, tx_chunk_size = 1, rx_chunk_size = 1\<rparr>"
    by code_simp
  have hd: "[js_and (int (length [49, 0 :: int])) 255,
             js_and (js_sar (int (length [49, 0 :: int])) 8) 255,
             js_and (js_sar (int (length [49, 0 :: int])) 16) 255,
             js_or (js_and (js_sar (int (length [49, 0 :: int])) 24) (js_not (js_shl 1 7)))
                   (js_shl 1 7)]
            @ js_slice [49, 0 :: int] 0 (min 1 (int (length [49, 0 :: int])))
            = [2, 0, 0, 128, 49]"
    by code_simp
  from C7_preempted_object_restarts_from_offset_zero [OF h1 h2, of example_env]
  have "\<exists>s1 s2. trySendNextChunk example_env preempted_session = Inr s1
          \<and> objectQueue s1 = [\<lparr>obj = JNum 1, data = [49, 0], json = [49]\<rparr>]
          \<and> offsetBytes s1 = 0
          \<and> controlSuccess example_env s1 = Inr s2
          \<and> offsetBytes s2 = 0
          \<and> out s2 = out s1 @ [SendAppMessage (Some [(''ControlKeyChunk'', Arr [2, 0, 0, 128, 49])])
                                  Object]"
    unfolding p using hd h3 by auto
  with h1 h2 h3 h4 show ?thesis by blast
qed

text \<open>
  C7 as stated fails: in \<open>ordinary_preemption\<close> the control message that preempts the object
  is the ResetComplete of a session the remote has reset, so Control is not in
  \<open>SessionOpen\<close> when the object is selected again. Nothing is retransmitted: the only chunk
  ever handed to the lower transport is the first transmission, the re-selection counts as
  a failure, and three timer retries later the object is dropped.
\<close>

theorem C7_counterexample:
  "handed_dicts (run example_env (take 7 ordinary_preemption))
     = [[(''ControlKeyResetRequest'', Num 0)],
        [(''ControlKeyResetComplete'', Arr [1, 1, 3, 232, 3, 232])],
        [(''ControlKeyChunk'', Arr [2, 0, 0, 128, 49])],
        [(''ControlKeyResetComplete'', Arr [1, 1, 3, 232, 3, 232])]]
   \<and> objectQueue (run example_env (take 7 ordinary_preemption))
       = [\<lparr>obj = JNum 1, data = [49, 0], json = [49]\<rparr>]
   \<and> currentMessageType (run example_env (take 7 ordinary_preemption)) = Some Control
   \<and> currentMessageType (run example_env (take 8 ordinary_preemption)) = Some Object
   \<and> offsetBytes (run example_env (take 8 ordinary_preemption)) = 0
   \<and> failureCount (run example_env (take 8 ordinary_preemption)) = 1
   \<and> control_state (run example_env (take 8 ordinary_preemption))
       = ControlStateAwaitingResetCompleteRemoteInitiated
   \<and> handed_dicts (run example_env (take 8 ordinary_preemption))
       = handed_dicts (run example_env (take 7 ordinary_preemption))
   \<and> objectQueue (run example_env ordinary_preemption) = []
   \<and> handed_dicts (run example_env ordinary_preemption)
       = handed_dicts (run example_env (take 7 ordinary_preemption))"
  by code_simp

text \<open>
  C8 (as the code has it). The object that consists of the terminator alone has total length
  1. Its first chunk (header \<open>n = 1\<close>, payload the single byte 0), received with an empty
  buffer, is the last chunk: the handler decodes the empty string, \<open>JSON.parse\<close> fails on it,
  the failure is logged, no \<open>message\<close> event is dispatched, and the buffer is empty
  afterwards.
\<close>

theorem C8_terminator_only_object_is_dropped:
  assumes "utf8_json_string s = []"
    and "utf8_decode E [] = Some []"
    and "JSON_parse E [] = None"
  shows "unpackChunk (Arr [1, 0, 0, 128, 0]) s = Inr (Some (FirstChunk 1 [0]), s)
     \<and> handleChunkReceived E (Some (FirstChunk 1 [0])) s
        = Inr (True, s\<lparr>total_size_bytes := 1, received_size_bytes := 1,
                        out := out s @ [ConsoleError (LogParseFailed [])]\<rparr>)"
proof -
  have "unpackChunk (Arr [1, 0, 0, 128, 0]) s = Inr (Some (FirstChunk 1 [0]), s)"
    by (simp add: unpackChunk_def Let_def js_shl_def js_and_def js_or_def js_not_def
        to_int32_def bits_of_def js_index_def js_slice_def js_rel_index_def)
  moreover have "handleChunkReceived E (Some (FirstChunk 1 [0])) s
        = Inr (True, s\<lparr>total_size_bytes := 1, received_size_bytes := 1,
                        out := out s @ [ConsoleError (LogParseFailed [])]\<rparr>)"
    using assms
    by (simp add: handleChunkReceived_def Let_def append_codes_def emit_def)
  ultimately show ?thesis by simp
qed

theorem C8_terminator_only_object_is_dropped_witness:
  "utf8_json_string initial_state = []
   \<and> utf8_decode example_env [] = Some []
   \<and> JSON_parse example_env [] = None
   \<and> handleChunkReceived example_env (Some (FirstChunk 1 [0])) initial_state
        = Inr (True, initial_state\<lparr>total_size_bytes := 1, received_size_bytes := 1,
                                    out := out initial_state @ [ConsoleError (LogParseFailed [])]\<rparr>)"
proof -
  have h1: "utf8_json_string initial_state = []"
    by (simp add: initial_state_def)
  have h2: "utf8_decode example_env [] = Some []"
    by (simp add: example_env_def)
  have h3: "JSON_parse example_env [] = None"
    by (simp add: example_env_def)
  have h4: "handleChunkReceived example_env (Some (FirstChunk 1 [0])) initial_state
        = Inr (True, initial_state\<lparr>total_size_bytes := 1, received_size_bytes := 1,
                                    out := out initial_state @ [ConsoleError (LogParseFailed [])]\<rparr>)"
    using C8_terminator_only_object_is_dropped [OF h1 h2 h3] by (rule conjunct2)
  show ?thesis
    by (rule conjI [OF h1 conjI [OF h2 conjI [OF h3 h4]]])
qed

text \<open>
  C8 as stated fails: with \<open>n = 0\<close> in the header the chunk is not the last one (one byte
  received, zero expected), nothing is decoded, and the terminator byte stays in the buffer.
\<close>

theorem C8_counterexample:
  "utf8_json_string initial_state = []
   \<and> utf8_decode example_env [] = Some []
   \<and> JSON_parse example_env [] = None
   \<and> unpackChunk (Arr [0, 0, 0, 128, 0]) initial_state
        = Inr (Some (FirstChunk 0 [0]), initial_state)
   \<and> handleChunkReceived example_env (Some (FirstChunk 0 [0])) initial_state
        = Inr (True, initial_state\<lparr>received_size_bytes := 1, utf8_json_string := [0]\<rparr>)
   \<and> utf8_json_string (receive example_env initial_state (Some (FirstChunk 0 [0]))) \<noteq> []"
  by (simp add: unpackChunk_def Let_def js_shl_def js_and_def js_or_def js_not_def
        to_int32_def bits_of_def js_index_def js_slice_def js_rel_index_def
        handleChunkReceived_def append_codes_def emit_def receive_def example_env_def
        initial_state_def fromCharCode_def)

text \<open>
  C9 (as the code has it). \<open>Pebble.addEventListener\<close> (and its alias \<open>Pebble.on\<close>) forwards the
  call unchanged to the native \<open>addEventListener\<close> for every event name that is neither one
  of the four names of the transport nor \<open>appmessage\<close>.
\<close>

theorem C9_other_events_are_forwarded:
  assumes "event_name \<notin> {''message'', ''postmessageerror'', ''postmessageconnected'',
                           ''postmessagedisconnected''}"
    and "event_name \<noteq> ''appmessage''"
  shows "addEventListener event_name h s = Inr (emit (NativeAddEventListener event_name h) s)"
  using assms by (simp add: addEventListener_def isPostMessageEvent_def)

theorem C9_other_events_are_forwarded_witness:
  "''ready'' \<notin> {''message'', ''postmessageerror'', ''postmessageconnected'',
                  ''postmessagedisconnected''}
   \<and> ''ready'' \<noteq> ''appmessage''
   \<and> addEventListener ''ready'' (HFunction 0) initial_state
       = Inr (emit (NativeAddEventListener ''ready'' (HFunction 0)) initial_state)"
proof -
  have h1: "''ready'' \<notin> {''message'', ''postmessageerror'', ''postmessageconnected'',
                          ''postmessagedisconnected''}"
    by simp
  have h2: "''ready'' \<noteq> ''appmessage''"
    by simp
  have h3: "addEventListener ''ready'' (HFunction 0) initial_state
       = Inr (emit (NativeAddEventListener ''ready'' (HFunction 0)) initial_state)"
    by (rule C9_other_events_are_forwarded [OF h1 h2])
  show ?thesis
    by (rule conjI [OF h1 conjI [OF h2 h3]])
qed

text \<open>
  C9 as stated fails for \<open>appmessage\<close>: the registration throws and nothing reaches the
  native listener interface.
\<close>

theorem C9_counterexample:
  "\<not> isPostMessageEvent ''appmessage''
   \<and> addEventListener ''appmessage'' (HFunction 0) initial_state
       = Inl (Error ''App Message not supported with Rocky.js apps. See Pebble.postMessage()'',
              initial_state)
   \<and> NativeAddEventListener ''appmessage'' (HFunction 0)
        \<notin> set (out (step example_env initial_state
                         (AddEventListener ''appmessage'' (HFunction 0))))"
  by (simp add: addEventListener_def isPostMessageEvent_def step_def emit_def initial_state_def)

text \<open>
  C1 (as the code has it). The wire keys are the four strings \<open>ControlKeyResetRequest\<close>,
  \<open>ControlKeyResetComplete\<close>, \<open>ControlKeyChunk\<close> and \<open>ControlKeyUnsupportedError\<close>.
  Whatever the sequence of events, every dictionary handed to the lower transport has
  exactly one key, one of these four; the control handlers look at an inbound payload
  through these four keys only; and the dictionary handed over after \<open>ready\<close> is
  \<open>{ControlKeyResetRequest: 0}\<close>.
\<close>

theorem C1_wire_keys_are_the_control_key_strings:
  "(\<forall>d \<in> set (handed_dicts (run E evs)). dict_ok d)
   \<and> (\<forall>p1 p2 s. (\<forall>k \<in> control_keys. map_of p1 k = map_of p2 k)
                   \<longrightarrow> control_handle E p1 s = control_handle E p2 s)
   \<and> handed_dicts (run E [Ready]) = [[(''ControlKeyResetRequest'', Num 0)]]"
proof (intro conjI)
  show "\<forall>d \<in> set (handed_dicts (run E evs)). dict_ok d"
    using run_invs(2) [of E evs] by (simp add: keys_inv_def)
  show "\<forall>p1 p2 s. (\<forall>k \<in> control_keys. map_of p1 k = map_of p2 k)
                   \<longrightarrow> control_handle E p1 s = control_handle E p2 s"
    using control_handle_keys by blast
  show "handed_dicts (run E [Ready]) = [[(''ControlKeyResetRequest'', Num 0)]]"
    by (simp add: run_def step_def control_enter_def controlSendResetRequest_def
        sendControlMessage_def sendControl_eq initial_state_def emit_def resetProtocol_def
        handed_dicts_def js_index_def)
qed

theorem C1_wire_keys_are_the_control_key_strings_witness:
  "[(''ControlKeyChunk'', Arr [2, 0, 0, 128, 49, 0])]
     \<in> set (handed_dicts (run example_env
          [Ready, AppMessage [(''ControlKeyResetComplete'', Arr [1, 1, 3, 232, 3, 232])],
           ControlSuccess, ControlSuccess, PostMessage (JNum 1)]))
   \<and> dict_ok [(''ControlKeyChunk'', Arr [2, 0, 0, 128, 49, 0])]
   \<and> map_of [(''ControlKeyResetRequest'', Num 0), (''ResetComplete'', Num 7)]
         ''ControlKeyResetComplete''
       = map_of [(''ControlKeyResetRequest'', Num 0)] ''ControlKeyResetComplete''
   \<and> control_handle example_env
        [(''ControlKeyResetRequest'', Num 0), (''ResetComplete'', Num 7)] open_session
       = control_handle example_env [(''ControlKeyResetRequest'', Num 0)] open_session"
proof -
  note t = C1_wire_keys_are_the_control_key_strings
             [of example_env
                 "[Ready, AppMessage [(''ControlKeyResetComplete'', Arr [1, 1, 3, 232, 3, 232])],
                   ControlSuccess, ControlSuccess, PostMessage (JNum 1)]"]
  have h1: "[(''ControlKeyChunk'', Arr [2, 0, 0, 128, 49, 0])]
     \<in> set (handed_dicts (run example_env
          [Ready, AppMessage [(''ControlKeyResetComplete'', Arr [1, 1, 3, 232, 3, 232])],
           ControlSuccess, ControlSuccess, PostMessage (JNum 1)]))"
    by code_simp
  have h2: "dict_ok [(''ControlKeyChunk'', Arr [2, 0, 0, 128, 49, 0])]"
    using t h1 by (elim conjE) (rule bspec)
  have h3: "\<forall>k \<in> control_keys.
          map_of [(''ControlKeyResetRequest'', Num 0), (''ResetComplete'', Num 7)] k
          = map_of [(''ControlKeyResetRequest'', Num 0)] k"
    by (simp add: control_keys_def)
  have h3': "map_of [(''ControlKeyResetRequest'', Num 0), (''ResetComplete'', Num 7)]
         ''ControlKeyResetComplete''
       = map_of [(''ControlKeyResetRequest'', Num 0)] ''ControlKeyResetComplete''"
    by simp
  have h4: "control_handle example_env
        [(''ControlKeyResetRequest'', Num 0), (''ResetComplete'', Num 7)] open_session
       = control_handle example_env [(''ControlKeyResetRequest'', Num 0)] open_session"
    using t h3 by (elim conjE allE impE)
  show ?thesis
    by (rule conjI [OF h1 conjI [OF h2 conjI [OF h3' h4]]])
qed

text \<open>
  C1 as stated fails: the dictionary handed over after \<open>ready\<close> has the key
  \<open>ControlKeyResetRequest\<close>, not \<open>ResetRequest\<close>; and an inbound payload with the key
  \<open>ResetRequest\<close> is not recognized as a reset request (in the open session it leads to
  \<open>AwaitingResetCompleteLocalInitiated\<close>, where \<open>ControlKeyResetRequest\<close> leads to
  \<open>AwaitingResetCompleteRemoteInitiated\<close>).
\<close>

theorem C1_counterexample:
  "handed_dicts (run example_env [Ready]) = [[(''ControlKeyResetRequest'', Num 0)]]
   \<and> [(''ResetRequest'', Num 0)] \<notin> set (handed_dicts (run example_env [Ready]))
   \<and> ControlKeyResetRequest \<noteq> ''ResetRequest''
   \<and> control_state (step example_env open_session (AppMessage [(''ResetRequest'', Num 0)]))
       = ControlStateAwaitingResetCompleteLocalInitiated
   \<and> control_state (step example_env open_session
                       (AppMessage [(''ControlKeyResetRequest'', Num 0)]))
       = ControlStateAwaitingResetCompleteRemoteInitiated"
  by code_simp

text \<open>
  C2 (as the code has it). In every reachable state: when Control is not in \<open>SessionOpen\<close>
  all three negotiated parameters are 0. When it is in \<open>SessionOpen\<close> the version is 1
  and both chunk sizes are at most 1000, and not negative when the arrays received so far
  were byte arrays. The parameters of an open session are those of the remote ResetComplete
  that opened it, and stay as they are while the session is open: \<open>tx_chunk_size\<close> is the
  smaller of 1000 and the remote's advertised \<open>max_rx_chunk_size\<close>, \<open>rx_chunk_size\<close> the
  smaller of 1000 and its advertised \<open>max_tx_chunk_size\<close> (for six bytes, the 16-bit
  big-endian numbers at offsets 2 and 4). So a chunk size is 0 when the remote advertises 0.
\<close>

theorem C2_negotiated_parameters_invariant:
  "(control_state (run E evs) \<noteq> ControlStateSessionOpen \<longrightarrow>
        version (control_protocol (run E evs)) = 0
        \<and> tx_chunk_size (control_protocol (run E evs)) = 0
        \<and> rx_chunk_size (control_protocol (run E evs)) = 0)
   \<and> (control_state (run E evs) = ControlStateSessionOpen \<longrightarrow>
        version (control_protocol (run E evs)) = 1
        \<and> tx_chunk_size (control_protocol (run E evs)) \<le> 1000
        \<and> rx_chunk_size (control_protocol (run E evs)) \<le> 1000
        \<and> (list_all byte_event evs \<longrightarrow>
              0 \<le> tx_chunk_size (control_protocol (run E evs))
              \<and> 0 \<le> rx_chunk_size (control_protocol (run E evs))))
   \<and> (control_state (run E (evs @ [ev])) = ControlStateSessionOpen \<longrightarrow>
        (control_state (run E evs) = ControlStateSessionOpen
         \<and> control_protocol (run E (evs @ [ev])) = control_protocol (run E evs))
        \<or> (control_state (run E evs) \<noteq> ControlStateSessionOpen
           \<and> opened_by ev (control_protocol (run E (evs @ [ev])))))
   \<and> (list_all (\<lambda>x. 0 \<le> x \<and> x < 256) [mn, mx, txh, txl, rxh, rxl] \<longrightarrow>
        unpackResetCompleteMessage (Arr [mn, mx, txh, txl, rxh, rxl])
         = \<lparr>remote_min_version = Some mn, remote_max_version = Some mx,
            remote_max_tx_chunk_size = txh * 256 + txl,
            remote_max_rx_chunk_size = rxh * 256 + rxl\<rparr>)"
proof (intro conjI impI)
  assume "control_state (run E evs) \<noteq> ControlStateSessionOpen"
  with run_invs(1) [of E evs]
  show "version (control_protocol (run E evs)) = 0"
    "tx_chunk_size (control_protocol (run E evs)) = 0"
    "rx_chunk_size (control_protocol (run E evs)) = 0"
    by (simp_all add: proto_inv_def zero_protocol_def)
next
  assume "control_state (run E evs) = ControlStateSessionOpen"
  with run_invs(1) [of E evs]
  show "version (control_protocol (run E evs)) = 1"
    "tx_chunk_size (control_protocol (run E evs)) \<le> 1000"
    "rx_chunk_size (control_protocol (run E evs)) \<le> 1000"
    by (simp_all add: proto_inv_def)
next
  assume "control_state (run E evs) = ControlStateSessionOpen" "list_all byte_event evs"
  with nonneg_run [of evs E]
  show "0 \<le> tx_chunk_size (control_protocol (run E evs))"
    "0 \<le> rx_chunk_size (control_protocol (run E evs))"
    by (simp_all add: nonneg_inv_def)
next
  assume "control_state (run E (evs @ [ev])) = ControlStateSessionOpen"
  then show "(control_state (run E evs) = ControlStateSessionOpen
         \<and> control_protocol (run E (evs @ [ev])) = control_protocol (run E evs))
        \<or> (control_state (run E evs) \<noteq> ControlStateSessionOpen
           \<and> opened_by ev (control_protocol (run E (evs @ [ev]))))"
    unfolding run_snoc by (rule step_open_cases)
next
  assume "list_all (\<lambda>x. 0 \<le> x \<and> x < 256) [mn, mx, txh, txl, rxh, rxl]"
  then show "unpackResetCompleteMessage (Arr [mn, mx, txh, txl, rxh, rxl])
         = \<lparr>remote_min_version = Some mn, remote_max_version = Some mx,
            remote_max_tx_chunk_size = txh * 256 + txl,
            remote_max_rx_chunk_size = rxh * 256 + rxl\<rparr>"
    by (rule unpack_six_bytes)
qed

theorem C2_negotiated_parameters_invariant_witness:
  "control_state (run example_env [Ready]) \<noteq> ControlStateSessionOpen
   \<and> (version (control_protocol (run example_env [Ready])) = 0
      \<and> tx_chunk_size (control_protocol (run example_env [Ready])) = 0
      \<and> rx_chunk_size (control_protocol (run example_env [Ready])) = 0)
   \<and> control_state (run example_env
        ([Ready] @ [AppMessage [(''ControlKeyResetComplete'', Arr [1, 1, 0, 7, 0, 0])]]))
       = ControlStateSessionOpen
   \<and> list_all byte_event
        ([Ready] @ [AppMessage [(''ControlKeyResetComplete'', Arr [1, 1, 0, 7, 0, 0])]])
   \<and> (0 \<le> tx_chunk_size (control_protocol (run example_env
          ([Ready] @ [AppMessage [(''ControlKeyResetComplete'', Arr [1, 1, 0, 7, 0, 0])]])))
      \<and> 0 \<le> rx_chunk_size (control_protocol (run example_env
          ([Ready] @ [AppMessage [(''ControlKeyResetComplete'', Arr [1, 1, 0, 7, 0, 0])]]))))
   \<and> opened_by (AppMessage [(''ControlKeyResetComplete'', Arr [1, 1, 0, 7, 0, 0])])
        (control_protocol (run example_env
          ([Ready] @ [AppMessage [(''ControlKeyResetComplete'', Arr [1, 1, 0, 7, 0, 0])]])))
   \<and> list_all (\<lambda>x. 0 \<le> x \<and> x < 256) [1, 1, 0, 7, 0, 0 :: int]
   \<and> unpackResetCompleteMessage (Arr [1, 1, 0, 7, 0, 0])
       = \<lparr>remote_min_version = Some 1, remote_max_version = Some 1,
          remote_max_tx_chunk_size = 0 * 256 + 7,
          remote_max_rx_chunk_size = 0 * 256 + 0\<rparr>"
proof -
  have h1: "control_state (run example_env [Ready]) \<noteq> ControlStateSessionOpen"
    by code_simp
  have h2: "control_state (run example_env
        ([Ready] @ [AppMessage [(''ControlKeyResetComplete'', Arr [1, 1, 0, 7, 0, 0])]]))
       = ControlStateSessionOpen"
    by code_simp
  have h3: "list_all byte_event
        ([Ready] @ [AppMessage [(''ControlKeyResetComplete'', Arr [1, 1, 0, 7, 0, 0])]])"
    by (simp add: byte_payload_def)
  have h4: "list_all (\<lambda>x. 0 \<le> x \<and> x < 256) [1, 1, 0, 7, 0, 0 :: int]"
    by simp
  note t1 = C2_negotiated_parameters_invariant
              [of example_env "[Ready]"
                  "AppMessage [(''ControlKeyResetComplete'', Arr [1, 1, 0, 7, 0, 0])]"
                  1 1 0 7 0 0]
  note t2 = C2_negotiated_parameters_invariant
              [of example_env
                  "[Ready] @ [AppMessage [(''ControlKeyResetComplete'', Arr [1, 1, 0, 7, 0, 0])]]"]
  note a = mp [OF conjunct1 [OF t1] h1]
  note b = mp [OF conjunct1 [OF conjunct2 [OF t2]] h2]
  note c = mp [OF conjunct2 [OF conjunct2 [OF conjunct2 [OF b]]] h3]
  from mp [OF conjunct1 [OF conjunct2 [OF conjunct2 [OF t1]]] h2] h1
  have d: "opened_by (AppMessage [(''ControlKeyResetComplete'', Arr [1, 1, 0, 7, 0, 0])])
        (control_protocol (run example_env
          ([Ready] @ [AppMessage [(''ControlKeyResetComplete'', Arr [1, 1, 0, 7, 0, 0])]])))"
    by (elim disjE conjE) (erule notE, assumption+)
  note e = mp [OF conjunct2 [OF conjunct2 [OF conjunct2 [OF t1]]] h4]
  show ?thesis
    by (rule conjI [OF h1 conjI [OF a conjI [OF h2 conjI [OF h3 conjI [OF c
          conjI [OF d conjI [OF h4 e]]]]]]])
qed

text \<open>
  C2 as stated fails: after \<open>ready\<close>, a remote ResetComplete with the version range [1, 1]
  and both chunk sizes 0 opens the session with \<open>tx_chunk_size = rx_chunk_size = 0\<close>.
\<close>

theorem C2_counterexample:
  "control_state (run example_env
       [Ready, AppMessage [(''ControlKeyResetComplete'', Arr [1, 1, 0, 0, 0, 0])]])
     = ControlStateSessionOpen
   \<and> tx_chunk_size (control_protocol (run example_env
       [Ready, AppMessage [(''ControlKeyResetComplete'', Arr [1, 1, 0, 0, 0, 0])]])) = 0
   \<and> rx_chunk_size (control_protocol (run example_env
       [Ready, AppMessage [(''ControlKeyResetComplete'', Arr [1, 1, 0, 0, 0, 0])]])) = 0
   \<and> \<not> 0 < tx_chunk_size (control_protocol (run example_env
       [Ready, AppMessage [(''ControlKeyResetComplete'', Arr [1, 1, 0, 0, 0, 0])]]))"
  by code_simp

end
